theory Spec2Isabelle
  imports Main "HOL-Library.Multiset"
begin

section \<open>Go strings, runes and UTF-8\<close>

text \<open>
  A Go string is a sequence of bytes, modelled as \<open>string\<close> (a list of 8-bit
  \<open>char\<close>s); \<open>byte c\<close> is the numeric value of a byte. A rune is a code point,
  modelled as a natural number (every rune the program handles comes out of
  the UTF-8 decoder and is non-negative).

  The functions of this section are the parts of Go's standard packages
  \<^verbatim>\<open>unicode/utf8\<close>, \<^verbatim>\<open>unicode\<close> and \<^verbatim>\<open>strings\<close> that \<^verbatim>\<open>title\<close> and the
  rest of the program call. The bit masks and shifts of the decoder are written
  as \<open>mod\<close> and multiplication.
\<close>

type_synonym rune = nat

definition byte :: "char \<Rightarrow> nat" where
  "byte c = of_char c"

definition RuneError :: rune where
  "RuneError = 0xFFFD"

definition RuneSelf :: nat where
  "RuneSelf = 0x80"

definition MaxRune :: rune where
  "MaxRune = 0x10FFFF"

definition ValidRune :: "rune \<Rightarrow> bool" where
  \<comment> \<open>\<^verbatim>\<open>utf8.ValidRune\<close>: in range and not a surrogate half\<close>
  "ValidRune r = (r < 0xD800 \<or> (0xDFFF < r \<and> r \<le> MaxRune))"

fun DecodeRuneInString :: "string \<Rightarrow> rune \<times> nat" where
  "DecodeRuneInString [] = (RuneError, 0)"
| "DecodeRuneInString (c0 # cs) =
    (let s0 = byte c0 in
     if s0 < RuneSelf then (s0, 1)
     else if s0 < 0xC2 \<or> 0xF4 < s0 then (RuneError, 1)
     else
       let sz = (if s0 < 0xE0 then 2 else if s0 < 0xF0 then 3 else (4::nat));
           lo = (if s0 = 0xE0 then 0xA0 else if s0 = 0xF0 then 0x90 else (0x80::nat));
           hi = (if s0 = 0xED then 0x9F else if s0 = 0xF4 then 0x8F else (0xBF::nat))
       in
       if length (c0 # cs) < sz then (RuneError, 1)
       else
         let s1 = byte (cs ! 0) in
         if s1 < lo \<or> hi < s1 then (RuneError, 1)
         else if sz \<le> 2 then ((s0 mod 32) * 64 + s1 mod 64, 2)
         else
           let s2 = byte (cs ! 1) in
           if s2 < 0x80 \<or> 0xBF < s2 then (RuneError, 1)
           else if sz \<le> 3 then ((s0 mod 16) * 4096 + (s1 mod 64) * 64 + s2 mod 64, 3)
           else
             let s3 = byte (cs ! 2) in
             if s3 < 0x80 \<or> 0xBF < s3 then (RuneError, 1)
             else ((s0 mod 8) * 262144 + (s1 mod 64) * 4096 + (s2 mod 64) * 64
                     + s3 mod 64, 4))"

definition runeToString :: "rune \<Rightarrow> string" where
  \<comment> \<open>the conversion \<^verbatim>\<open>string(r)\<close>: the UTF-8 encoding, U+FFFD for an invalid rune\<close>
  "runeToString r =
    (if r \<le> 0x7F then [char_of r]
     else if r \<le> 0x7FF then [char_of (0xC0 + r div 64), char_of (0x80 + r mod 64)]
     else if r > MaxRune \<or> (0xD800 \<le> r \<and> r \<le> 0xDFFF) then [CHR 0xEF, CHR 0xBF, CHR 0xBD]
     else if r \<le> 0xFFFF then
       [char_of (0xE0 + r div 4096), char_of (0x80 + (r div 64) mod 64),
        char_of (0x80 + r mod 64)]
     else
       [char_of (0xF0 + r div 262144), char_of (0x80 + (r div 4096) mod 64),
        char_of (0x80 + (r div 64) mod 64), char_of (0x80 + r mod 64)])"

definition RuneStart :: "char \<Rightarrow> bool" where
  \<comment> \<open>not a continuation byte\<close>
  "RuneStart b = (\<not> (0x80 \<le> byte b \<and> byte b < 0xC0))"

function backToStart :: "string \<Rightarrow> int \<Rightarrow> int \<Rightarrow> int" where
  "backToStart s start lim =
    (if start \<ge> lim \<and> 0 \<le> start then
       (if RuneStart (s ! nat start) then start else backToStart s (start - 1) lim)
     else start)"
  by pat_completeness auto
termination
  by (relation "measure (\<lambda>(s, start, lim). nat (start + 1))") auto

declare backToStart.simps [simp del]

definition DecodeLastRuneInString :: "string \<Rightarrow> rune \<times> nat" where
  "DecodeLastRuneInString s =
    (let end = int (length s) in
     if end = 0 then (RuneError, 0)
     else
       let r = byte (s ! nat (end - 1)) in
       if r < RuneSelf then (r, 1)
       else
         let lim = (if end - 4 < 0 then 0 else end - 4);
             start0 = backToStart s (end - 2) lim;
             start = (if start0 < 0 then 0 else start0);
             (r, size) = DecodeRuneInString (drop (nat start) s)
         in if start + int size \<noteq> end then (RuneError, 1) else (r, size))"

subsection \<open>Package unicode\<close>

text \<open>
  \<^verbatim>\<open>unicode.IsTitle\<close> and \<^verbatim>\<open>unicode.ToTitle\<close> answer for Latin-1 and ASCII
  themselves and consult the Unicode tables otherwise. The tables are data of
  the Go distribution, so they are a parameter: \<open>TitleRange\<close> is membership in the
  range table \<^verbatim>\<open>unicode.Title\<close> (category Lt) and \<open>TitleCaseMap\<close> is
  \<^verbatim>\<open>unicode.To(unicode.TitleCase, r)\<close> over \<^verbatim>\<open>unicode.CaseRanges\<close>.
\<close>

record unicode_tables =
  TitleRange :: "rune \<Rightarrow> bool"
  TitleCaseMap :: "rune \<Rightarrow> rune"

definition MaxASCII :: rune where
  "MaxASCII = 0x7F"

definition MaxLatin1 :: rune where
  "MaxLatin1 = 0xFF"

definition IsTitle :: "unicode_tables \<Rightarrow> rune \<Rightarrow> bool" where
  "IsTitle U r = (if r \<le> MaxLatin1 then False else TitleRange U r)"

definition ToTitle :: "unicode_tables \<Rightarrow> rune \<Rightarrow> rune" where
  "ToTitle U r =
    (if r \<le> MaxASCII then (if 97 \<le> r \<and> r \<le> 122 then r - 32 else r)
     else TitleCaseMap U r)"

definition IsSpace :: "rune \<Rightarrow> bool" where
  \<comment> \<open>Latin-1 by the switch of \<^verbatim>\<open>unicode.IsSpace\<close>, the rest is the table
      \<^verbatim>\<open>unicode.White_Space\<close>\<close>
  "IsSpace r =
    (if r \<le> MaxLatin1 then r \<in> {9, 10, 11, 12, 13, 32, 0x85, 0xA0}
     else r = 0x1680 \<or> (0x2000 \<le> r \<and> r \<le> 0x200A) \<or> r = 0x2028 \<or> r = 0x2029
          \<or> r = 0x202F \<or> r = 0x205F \<or> r = 0x3000)"

subsection \<open>Package strings\<close>

definition asciiSpace :: "char \<Rightarrow> bool" where
  "asciiSpace c = (byte c \<in> {9, 10, 11, 12, 13, 32})"

lemma DecodeRuneInString_size_pos:
  "DecodeRuneInString (c # cs) = (r, n) \<Longrightarrow> 0 < n"
  by (simp add: Let_def split: if_splits)

lemma DecodeRuneInString_size_le:
  "DecodeRuneInString s = (r, n) \<Longrightarrow> n \<le> length s"
proof (cases s)
  case Nil
  assume "DecodeRuneInString s = (r, n)"
  with Nil show ?thesis by simp
next
  case (Cons c cs)
  assume d: "DecodeRuneInString s = (r, n)"
  have "n = 1 \<or> (n \<le> 4 \<and> \<not> length (c # cs) < n)"
    using d unfolding Cons
    by (simp add: Let_def split: if_splits)
  then show ?thesis using Cons by auto
qed

function indexFunc :: "string \<Rightarrow> (rune \<Rightarrow> bool) \<Rightarrow> bool \<Rightarrow> nat option" where
  "indexFunc s f truth =
    (if s = [] then None
     else
       let (r, size) = DecodeRuneInString s in
       if f r = truth then Some 0
       else map_option (\<lambda>i. size + i) (indexFunc (drop size s) f truth))"
  by pat_completeness auto
termination
proof (relation "measure (\<lambda>(s, f, truth). length s)", goal_cases)
  case 1
  show ?case by simp
next
  case (2 s f truth x r size)
  then obtain c cs where "s = c # cs" by (cases s) auto
  with 2 have "0 < size" using DecodeRuneInString_size_pos [of c cs r size] by simp
  with 2 show ?case by simp
qed

declare indexFunc.simps [simp del]

lemma backToStart_le: "backToStart s a l \<le> a"
  by (induction s a l rule: backToStart.induct) (subst backToStart.simps, auto)

lemma DecodeLastRuneInString_cases:
  assumes "s \<noteq> []" and "DecodeLastRuneInString s = (r, n)"
  shows "n = 1 \<or> (\<exists>st. st < length s \<and> st + n = length s)"
proof -
  define st where
    "st = (let s0 = backToStart s (int (length s) - 2)
                      (if int (length s) - 4 < 0 then 0 else int (length s) - 4)
           in if s0 < 0 then 0 else s0)"
  have st0: "0 \<le> st" by (simp add: st_def Let_def)
  have "st \<le> int (length s) - 2 \<or> st = 0"
    using backToStart_le [of s "int (length s) - 2"] by (simp add: st_def Let_def)
  with assms(1) have stl: "nat st < length s" by (cases s) auto
  obtain r' n' where dr: "DecodeRuneInString (drop (nat st) s) = (r', n')"
    by (cases "DecodeRuneInString (drop (nat st) s)")
  from assms have "n = 1 \<or> (n = n' \<and> st + int n' = int (length s))"
    using dr unfolding DecodeLastRuneInString_def st_def
    by (simp add: Let_def split: if_splits)
  then show ?thesis
  proof
    assume "n = 1" then show ?thesis by simp
  next
    assume a: "n = n' \<and> st + int n' = int (length s)"
    with st0 have "nat st + n = length s" by linarith
    with stl show ?thesis by blast
  qed
qed

lemma DecodeLastRuneInString_size_pos:
  "s \<noteq> [] \<Longrightarrow> DecodeLastRuneInString s = (r, n) \<Longrightarrow> 0 < n"
  using DecodeLastRuneInString_cases [of s r n] by auto

lemma DecodeLastRuneInString_size_le:
  "DecodeLastRuneInString s = (r, n) \<Longrightarrow> n \<le> length s"
proof (cases "s = []")
  case True
  assume "DecodeLastRuneInString s = (r, n)"
  with True show ?thesis by (simp add: DecodeLastRuneInString_def)
next
  case False
  assume "DecodeLastRuneInString s = (r, n)"
  with False show ?thesis
    using DecodeLastRuneInString_cases [of s r n] by (cases s) auto
qed

function lastIndexFunc :: "string \<Rightarrow> (rune \<Rightarrow> bool) \<Rightarrow> bool \<Rightarrow> nat option" where
  "lastIndexFunc s f truth =
    (if s = [] then None
     else
       let (r, size) = DecodeLastRuneInString s;
           i = length s - size
       in if f r = truth then Some i else lastIndexFunc (take i s) f truth)"
  by pat_completeness auto
termination
proof (relation "measure (\<lambda>(s, f, truth). length s)", goal_cases)
  case 1
  show ?case by simp
next
  case (2 s f truth x r size i)
  then have "0 < size" using DecodeLastRuneInString_size_pos [of s r size] by simp
  moreover have "s \<noteq> []" using 2 by simp
  ultimately have "length s - size < length s" by (cases s) simp_all
  then show ?case using 2(4) by simp
qed

declare lastIndexFunc.simps [simp del]

definition TrimLeftFunc :: "string \<Rightarrow> (rune \<Rightarrow> bool) \<Rightarrow> string" where
  "TrimLeftFunc s f =
    (case indexFunc s f False of None \<Rightarrow> [] | Some i \<Rightarrow> drop i s)"

definition TrimRightFunc :: "string \<Rightarrow> (rune \<Rightarrow> bool) \<Rightarrow> string" where
  "TrimRightFunc s f =
    (case lastIndexFunc s f False of
       None \<Rightarrow> []
     | Some i \<Rightarrow>
         if byte (s ! i) \<ge> RuneSelf
         then take (i + snd (DecodeRuneInString (drop i s))) s
         else take (i + 1) s)"

definition TrimFunc :: "string \<Rightarrow> (rune \<Rightarrow> bool) \<Rightarrow> string" where
  "TrimFunc s f = TrimRightFunc (TrimLeftFunc s f) f"

function trimSpaceStop :: "string \<Rightarrow> string" where
  "trimSpaceStop s =
    (if s = [] then []
     else
       let c = last s in
       if byte c \<ge> RuneSelf then TrimRightFunc s IsSpace
       else if asciiSpace c then trimSpaceStop (butlast s)
       else s)"
  by pat_completeness auto
termination
  by (relation "measure length") auto

declare trimSpaceStop.simps [simp del]

fun TrimSpace :: "string \<Rightarrow> string" where
  "TrimSpace [] = []"
| "TrimSpace (c # cs) =
    (if byte c \<ge> RuneSelf then TrimFunc (c # cs) IsSpace
     else if asciiSpace c then TrimSpace cs
     else trimSpaceStop (c # cs))"

section \<open>Title casing\<close>

text \<open>
  \<^verbatim>\<open>title\<close> of \<^verbatim>\<open>main.go\<close> (the tag-delta variant), and \<^verbatim>\<open>title\<close> of the second
  source file (the closed-PR-list variant), which trims first.
\<close>

definition title :: "unicode_tables \<Rightarrow> string \<Rightarrow> string" where
  "title U s =
    (if length s = 0 then []
     else
       let (r, size) = DecodeRuneInString s in
       if IsTitle U r then s
       else runeToString (ToTitle U r) @ drop size s)"

definition title_part000 :: "unicode_tables \<Rightarrow> string \<Rightarrow> string" where
  "title_part000 U s0 =
    (let s = TrimSpace s0 in
     if length s = 0 then []
     else
       let (r, size) = DecodeRuneInString s in
       if IsTitle U r then s
       else runeToString (ToTitle U r) @ drop size s)"

subsection \<open>More of package strings\<close>

definition HasPrefix :: "string \<Rightarrow> string \<Rightarrow> bool" where
  "HasPrefix s p = (length p \<le> length s \<and> take (length p) s = p)"

definition HasSuffix :: "string \<Rightarrow> string \<Rightarrow> bool" where
  "HasSuffix s suf = (length suf \<le> length s \<and> drop (length s - length suf) s = suf)"

definition TrimSuffix :: "string \<Rightarrow> string \<Rightarrow> string" where
  "TrimSuffix s suf = (if HasSuffix s suf then take (length s - length suf) s else s)"

definition TrimPrefix :: "string \<Rightarrow> string \<Rightarrow> string" where
  "TrimPrefix s p = (if HasPrefix s p then drop (length p) s else s)"

fun Index :: "string \<Rightarrow> string \<Rightarrow> nat option" where
  "Index [] sep = (if sep = [] then Some 0 else None)"
| "Index (c # cs) sep =
    (if HasPrefix (c # cs) sep then Some 0 else map_option Suc (Index cs sep))"

fun LastIndex :: "string \<Rightarrow> string \<Rightarrow> nat option" where
  "LastIndex [] sep = (if sep = [] then Some 0 else None)"
| "LastIndex (c # cs) sep =
    (case LastIndex cs sep of
       Some i \<Rightarrow> Some (Suc i)
     | None \<Rightarrow> if HasPrefix (c # cs) sep then Some 0 else None)"

definition Contains :: "string \<Rightarrow> string \<Rightarrow> bool" where
  "Contains s sub = (Index s sub \<noteq> None)"

definition Cut :: "string \<Rightarrow> string \<Rightarrow> string \<times> string \<times> bool" where
  "Cut s sep =
    (case Index s sep of
       None \<Rightarrow> (s, [], False)
     | Some i \<Rightarrow> (take i s, drop (i + length sep) s, True))"

definition CountByte :: "string \<Rightarrow> char \<Rightarrow> nat" where
  \<comment> \<open>\<^verbatim>\<open>strings.Count\<close> for a separator of one byte\<close>
  "CountByte s c = length (filter (\<lambda>x. x = c) s)"

fun Join :: "string list \<Rightarrow> string \<Rightarrow> string" where
  "Join [] sep = []"
| "Join [x] sep = x"
| "Join (x # y # ys) sep = x @ sep @ Join (y # ys) sep"

fun SplitN :: "string \<Rightarrow> string \<Rightarrow> nat \<Rightarrow> string list" where
  \<comment> \<open>\<^verbatim>\<open>strings.SplitN\<close> for a non-empty separator and \<open>n \<ge> 0\<close>\<close>
  "SplitN s sep 0 = []"
| "SplitN s sep (Suc 0) = [s]"
| "SplitN s sep (Suc (Suc n)) =
    (case Index s sep of
       None \<Rightarrow> [s]
     | Some m \<Rightarrow> take m s # SplitN (drop (m + length sep) s) sep (Suc n))"

definition ToLowerASCII :: "string \<Rightarrow> string" where
  \<comment> \<open>\<^verbatim>\<open>strings.ToLower\<close> on the bytes a URL scheme can hold\<close>
  "ToLowerASCII s =
    map (\<lambda>c. if 65 \<le> byte c \<and> byte c \<le> 90 then char_of (byte c + 32) else c) s"

section \<open>Errors\<close>

datatype gitfail = ExitError string string | OtherError string string

text \<open>
  The errors of \<^verbatim>\<open>net/url\<close>: a fixed message, or one of the errors whose message
  quotes a part of the input (\<^verbatim>\<open>EscapeError\<close>: "invalid URL escape" and the escape;
  \<^verbatim>\<open>InvalidHostError\<close>: "invalid character ... in host name"; an invalid port
  after the host).
\<close>

datatype urlerr =
    UrlMsg string
  | EscapeError string
  | InvalidHostError string
  | InvalidPort string

datatype error =
    GitFailed gitfail
  | UrlParse string string
  | UrlParseErr string urlerr
  | Msg string
  | Wrapped string error
  | ErrTooLong
  | Transport string
  | ErrRange
  | ErrSyntax

section \<open>Package net/url: Parse\<close>

text \<open>
  \<^verbatim>\<open>url.Parse\<close> of the Go standard library, for the fields the program reads
  (\<open>Host\<close> and \<open>Path\<close>) and every error it can return. \<open>UrlParse u msg\<close> is the
  \<^verbatim>\<open>*url.Error\<close> of the operation "parse" on \<open>u\<close> around an error with the
  message \<open>msg\<close>; \<open>UrlParseErr u e\<close> is the same around one of the quoting errors.
\<close>

record URL =
  Scheme :: string
  Opaque :: string
  Host :: string
  Path :: string
  RawQuery :: string
  Fragment :: string

datatype encoding =
  encodePath | encodeHost | encodeZone | encodeUserPassword | encodeFragment

definition isAlpha :: "char \<Rightarrow> bool" where
  "isAlpha c = ((97 \<le> byte c \<and> byte c \<le> 122) \<or> (65 \<le> byte c \<and> byte c \<le> 90))"

definition isDigit :: "char \<Rightarrow> bool" where
  "isDigit c = (48 \<le> byte c \<and> byte c \<le> 57)"

definition ishex :: "char \<Rightarrow> bool" where
  "ishex c = (isDigit c \<or> (97 \<le> byte c \<and> byte c \<le> 102) \<or> (65 \<le> byte c \<and> byte c \<le> 70))"

definition unhex :: "char \<Rightarrow> nat" where
  "unhex c =
    (if isDigit c then byte c - 48
     else if 97 \<le> byte c \<and> byte c \<le> 102 then byte c - 97 + 10
     else if 65 \<le> byte c \<and> byte c \<le> 70 then byte c - 65 + 10
     else 0)"

definition stringContainsCTLByte :: "string \<Rightarrow> bool" where
  "stringContainsCTLByte s = list_ex (\<lambda>c. byte c < 32 \<or> byte c = 0x7F) s"

fun getSchemeFrom :: "string \<Rightarrow> string \<Rightarrow> string \<Rightarrow> urlerr + (string \<times> string)" where
  \<comment> \<open>the loop of \<^verbatim>\<open>getScheme\<close>: \<open>pre\<close> is \<^verbatim>\<open>rawURL[:i]\<close>\<close>
  "getSchemeFrom rawURL pre [] = Inr ([], rawURL)"
| "getSchemeFrom rawURL pre (c # cs) =
    (if isAlpha c then getSchemeFrom rawURL (pre @ [c]) cs
     else if isDigit c \<or> c = CHR ''+'' \<or> c = CHR ''-'' \<or> c = CHR ''.'' then
       (if pre = [] then Inr ([], rawURL) else getSchemeFrom rawURL (pre @ [c]) cs)
     else if c = CHR '':'' then
       (if pre = [] then Inl (UrlMsg ''missing protocol scheme'') else Inr (pre, cs))
     else Inr ([], rawURL))"

definition getScheme :: "string \<Rightarrow> urlerr + (string \<times> string)" where
  "getScheme rawURL = getSchemeFrom rawURL [] rawURL"

definition shouldEscapeHost :: "char \<Rightarrow> bool" where
  \<comment> \<open>\<^verbatim>\<open>shouldEscape(c, encodeHost)\<close>\<close>
  "shouldEscapeHost c =
    (if isAlpha c \<or> isDigit c then False
     else if c \<in> set ''!$&'' \<or> c = CHR 0x27 \<or> c \<in> set ''()*+,;=:[]<>'' \<or> c = CHR 0x22
       then False
     else if c \<in> set ''-_.~'' then False
     else True)"

fun unescape :: "string \<Rightarrow> encoding \<Rightarrow> urlerr + string" where
  "unescape [] mode = Inr []"
| "unescape (c # cs) mode =
    (if c = CHR ''%'' then
       (case cs of
          h1 # h2 # rest \<Rightarrow>
            if \<not> ishex h1 \<or> \<not> ishex h2 then Inl (EscapeError (take 3 (c # cs)))
            else if mode = encodeHost \<and> unhex h1 < 8 \<and> [c, h1, h2] \<noteq> ''%25''
              then Inl (EscapeError [c, h1, h2])
            else if mode = encodeZone \<and> [c, h1, h2] \<noteq> ''%25''
                    \<and> unhex h1 * 16 + unhex h2 \<noteq> 32
                    \<and> shouldEscapeHost (char_of (unhex h1 * 16 + unhex h2))
              then Inl (EscapeError [c, h1, h2])
            else
              (case unescape rest mode of
                 Inl e \<Rightarrow> Inl e
               | Inr t \<Rightarrow> Inr (char_of (unhex h1 * 16 + unhex h2) # t))
        | _ \<Rightarrow> Inl (EscapeError (take 3 (c # cs))))
     else if (mode = encodeHost \<or> mode = encodeZone) \<and> byte c < 0x80 \<and> shouldEscapeHost c
       then Inl (InvalidHostError [c])
     else
       (case unescape cs mode of Inl e \<Rightarrow> Inl e | Inr t \<Rightarrow> Inr (c # t)))"

definition validOptionalPort :: "string \<Rightarrow> bool" where
  "validOptionalPort port =
    (case port of
       [] \<Rightarrow> True
     | c # ds \<Rightarrow> c = CHR '':'' \<and> list_all isDigit ds)"

definition parseHost :: "string \<Rightarrow> urlerr + string" where
  "parseHost host =
    (if HasPrefix host ''['' then
       (case LastIndex host '']'' of
          None \<Rightarrow> Inl (UrlMsg (''missing '' @ [CHR 0x27] @ '']'' @ [CHR 0x27] @ '' in host''))
        | Some i \<Rightarrow>
            if \<not> validOptionalPort (drop (i + 1) host)
              then Inl (InvalidPort (drop (i + 1) host))
            else
              (case Index (take i host) ''%25'' of
                 Some zone \<Rightarrow>
                   (case unescape (take zone host) encodeHost of
                      Inl e \<Rightarrow> Inl e
                    | Inr host1 \<Rightarrow>
                        (case unescape (drop zone (take i host)) encodeZone of
                           Inl e \<Rightarrow> Inl e
                         | Inr host2 \<Rightarrow>
                             (case unescape (drop i host) encodeHost of
                                Inl e \<Rightarrow> Inl e
                              | Inr host3 \<Rightarrow> Inr (host1 @ host2 @ host3))))
               | None \<Rightarrow> unescape host encodeHost))
     else
       (case LastIndex host '':'' of
          Some i \<Rightarrow>
            if \<not> validOptionalPort (drop i host)
              then Inl (InvalidPort (drop i host))
            else unescape host encodeHost
        | None \<Rightarrow> unescape host encodeHost))"

definition validUserinfo :: "string \<Rightarrow> bool" where
  "validUserinfo s =
    list_all (\<lambda>c. isAlpha c \<or> isDigit c \<or> c \<in> set ''-._:~!$&'' \<or> c = CHR 0x27
                   \<or> c \<in> set ''()*+,;=%@'') s"

definition parseAuthority :: "string \<Rightarrow> urlerr + string" where
  \<comment> \<open>the host of the authority; the user information is checked and dropped\<close>
  "parseAuthority authority =
    (case LastIndex authority ''@'' of
       None \<Rightarrow> parseHost authority
     | Some i \<Rightarrow>
         (case parseHost (drop (i + 1) authority) of
            Inl e \<Rightarrow> Inl e
          | Inr host \<Rightarrow>
              let userinfo = take i authority in
              if \<not> validUserinfo userinfo then Inl (UrlMsg ''net/url: invalid userinfo'')
              else if \<not> Contains userinfo '':'' then
                (case unescape userinfo encodeUserPassword of
                   Inl e \<Rightarrow> Inl e | Inr u \<Rightarrow> Inr host)
              else
                (case Cut userinfo '':'' of (username, password, found) \<Rightarrow>
                   (case unescape username encodeUserPassword of
                      Inl e \<Rightarrow> Inl e
                    | Inr u \<Rightarrow>
                        (case unescape password encodeUserPassword of
                           Inl e \<Rightarrow> Inl e | Inr p \<Rightarrow> Inr host)))))"

definition emptyURL :: URL where
  "emptyURL = \<lparr>Scheme = [], Opaque = [], Host = [], Path = [], RawQuery = [], Fragment = []\<rparr>"

definition parse :: "string \<Rightarrow> bool \<Rightarrow> urlerr + URL" where
  "parse rawURL viaRequest =
    (if stringContainsCTLByte rawURL then Inl (UrlMsg ''net/url: invalid control character in URL'')
     else if rawURL = [] \<and> viaRequest then Inl (UrlMsg ''empty url'')
     else if rawURL = ''*'' then Inr (emptyURL\<lparr>Path := ''*''\<rparr>)
     else
       (case getScheme rawURL of
          Inl e \<Rightarrow> Inl e
        | Inr (scheme0, rest0) \<Rightarrow>
            let scheme = ToLowerASCII scheme0;
                (rest, rawQuery) =
                  (if HasSuffix rest0 ''?'' \<and> CountByte rest0 (CHR ''?'') = 1
                   then (take (length rest0 - 1) rest0, [])
                   else (case Cut rest0 ''?'' of (a, b, found) \<Rightarrow> (a, b)));
                url = emptyURL\<lparr>Scheme := scheme, RawQuery := rawQuery\<rparr>
            in
            if \<not> HasPrefix rest ''/'' \<and> scheme \<noteq> [] then Inr (url\<lparr>Opaque := rest\<rparr>)
            else if \<not> HasPrefix rest ''/'' \<and> viaRequest then Inl (UrlMsg ''invalid URI for request'')
            else if \<not> HasPrefix rest ''/'' \<and> Contains (fst (Cut rest ''/'')) '':''
              then Inl (UrlMsg ''first path segment in URL cannot contain colon'')
            else if (scheme \<noteq> [] \<or> (\<not> viaRequest \<and> \<not> HasPrefix rest ''///''))
                    \<and> HasPrefix rest ''//'' then
              (let authority0 = drop 2 rest;
                   (authority, rest') =
                     (case Index authority0 ''/'' of
                        Some i \<Rightarrow> (take i authority0, drop i authority0)
                      | None \<Rightarrow> (authority0, []))
               in case parseAuthority authority of
                    Inl e \<Rightarrow> Inl e
                  | Inr host \<Rightarrow>
                      (case unescape rest' encodePath of
                         Inl e \<Rightarrow> Inl e
                       | Inr path \<Rightarrow> Inr (url\<lparr>Host := host, Path := path\<rparr>)))
            else
              (case unescape rest encodePath of
                 Inl e \<Rightarrow> Inl e
               | Inr path \<Rightarrow> Inr (url\<lparr>Path := path\<rparr>))))"

definition parseError :: "string \<Rightarrow> urlerr \<Rightarrow> error" where
  "parseError u e = (case e of UrlMsg msg \<Rightarrow> UrlParse u msg | _ \<Rightarrow> UrlParseErr u e)"

definition url_Parse :: "string \<Rightarrow> error + URL" where
  "url_Parse rawURL =
    (case Cut rawURL ''#'' of (u, frag, found) \<Rightarrow>
       (case parse u False of
          Inl e \<Rightarrow> Inl (parseError u e)
        | Inr url \<Rightarrow>
            if frag = [] then Inr url
            else
              (case unescape frag encodeFragment of
                 Inl e \<Rightarrow> Inl (parseError rawURL e)
               | Inr f \<Rightarrow> Inr (url\<lparr>Fragment := f\<rparr>))))"

section \<open>Package regexp\<close>

text \<open>
  The regular expressions of the program, as syntax trees, and a backtracking
  matcher that returns the matches in the order of preference of Go's
  leftmost-first semantics: a greedy repetition tries one more iteration before
  it stops. Matching is on runes: the subject is decoded into its runes, each
  kept with the bytes it was decoded from, and an invalid byte is the rune
  U+FFFD of width one. A capture is the text of a numbered group.
\<close>

datatype re =
    Eps
  | Chr rune
  | Dot
  | NotChr rune
  | Digit
  | Cat re re
  | Plus re
  | Grp nat re
  | Bol
  | Eol

fun Str :: "string \<Rightarrow> re" where
  \<comment> \<open>a literal of ASCII characters\<close>
  "Str [] = Eps"
| "Str (c # cs) = Cat (Chr (byte c)) (Str cs)"

type_synonym token = "rune \<times> string"

function toRunes :: "string \<Rightarrow> token list" where
  "toRunes s =
    (if s = [] then []
     else let (r, size) = DecodeRuneInString s in (r, take size s) # toRunes (drop size s))"
  by pat_completeness auto
termination
proof (relation "measure length", goal_cases)
  case 1
  show ?case by simp
next
  case (2 s x r size)
  then obtain c cs where "s = c # cs" by (cases s) auto
  with 2 have "0 < size" using DecodeRuneInString_size_pos [of c cs r size] by simp
  with 2 show ?case by simp
qed

declare toRunes.simps [simp del]

text \<open>
  The state of a match: the runes before the position, the runes after it and
  the captures so far.
\<close>

type_synonym mstate = "token list \<times> token list \<times> (nat \<times> string) list"

definition textOf :: "token list \<Rightarrow> string" where
  "textOf ts = concat (map snd ts)"

fun step :: "re \<Rightarrow> mstate \<Rightarrow> mstate list" where
  "step Eps x = [x]"
| "step (Chr c) (seen, rest, caps) =
    (case rest of
       [] \<Rightarrow> []
     | t # ts \<Rightarrow> if fst t = c then [(seen @ [t], ts, caps)] else [])"
| "step Dot (seen, rest, caps) =
    (case rest of
       [] \<Rightarrow> []
     | t # ts \<Rightarrow> if fst t \<noteq> 10 then [(seen @ [t], ts, caps)] else [])"
| "step (NotChr c) (seen, rest, caps) =
    (case rest of
       [] \<Rightarrow> []
     | t # ts \<Rightarrow> if fst t \<noteq> c then [(seen @ [t], ts, caps)] else [])"
| "step Digit (seen, rest, caps) =
    (case rest of
       [] \<Rightarrow> []
     | t # ts \<Rightarrow> if 48 \<le> fst t \<and> fst t \<le> 57 then [(seen @ [t], ts, caps)] else [])"
| "step (Cat a b) x = concat (map (step b) (step a x))"
| "step (Plus a) x =
    concat (map (\<lambda>y. (if length (fst (snd y)) < length (fst (snd x))
                        then step (Plus a) y else []) @ [y])
                (step a x))"
| "step (Grp n a) (seen, rest, caps) =
    map (\<lambda>(seen', rest', caps').
           (seen', rest', caps' @ [(n, textOf (drop (length seen) seen'))]))
        (step a (seen, rest, caps))"
| "step Bol (seen, rest, caps) = (if seen = [] then [(seen, rest, caps)] else [])"
| "step Eol (seen, rest, caps) = (if rest = [] then [(seen, rest, caps)] else [])"

fun searchFrom :: "re \<Rightarrow> token list \<Rightarrow> token list \<Rightarrow> (string \<times> (nat \<times> string) list) option"
  where
  \<comment> \<open>the leftmost match: the first start position with a match, and its preferred match\<close>
  "searchFrom r seen rest =
    (case step r (seen, rest, []) of
       (seen', rest', caps) # _ \<Rightarrow> Some (textOf (drop (length seen) seen'), caps)
     | [] \<Rightarrow>
         (case rest of
            [] \<Rightarrow> None
          | t # ts \<Rightarrow> searchFrom r (seen @ [t]) ts))"

declare searchFrom.simps [simp del]

definition FindStringSubmatch :: "re \<Rightarrow> string \<Rightarrow> (string \<times> (nat \<times> string) list) option" where
  "FindStringSubmatch r s = searchFrom r [] (toRunes s)"

definition group :: "(nat \<times> string) list \<Rightarrow> nat \<Rightarrow> string" where
  \<comment> \<open>the text of a group, empty when the group did not take part\<close>
  "group caps n = (case map_of caps n of Some t \<Rightarrow> t | None \<Rightarrow> [])"

definition regexp_MatchString :: "re \<Rightarrow> string \<Rightarrow> error + bool" where
  \<comment> \<open>\<^verbatim>\<open>regexp.MatchString\<close> for a pattern that compiles\<close>
  "regexp_MatchString r s = Inr (FindStringSubmatch r s \<noteq> None)"

definition gitUrlRegex :: re where
  \<comment> \<open>\<^verbatim>\<open>^git@([^:]+):([^/]+)/([^/]+).git$\<close>\<close>
  "gitUrlRegex =
    Cat Bol (Cat (Str ''git@'') (Cat (Grp 1 (Plus (NotChr 58))) (Cat (Chr 58)
      (Cat (Grp 2 (Plus (NotChr 47))) (Cat (Chr 47) (Cat (Grp 3 (Plus (NotChr 47)))
        (Cat Dot (Cat (Str ''git'') Eol))))))))"

definition mergeRegexp :: re where
  \<comment> \<open>\<^verbatim>\<open>^Merge pull request #(\d+)\<close>\<close>
  "mergeRegexp = Cat Bol (Cat (Str ''Merge pull request #'') (Grp 1 (Plus Digit)))"

definition emptyRegexp :: re where
  \<comment> \<open>the pattern \<^verbatim>\<open>""\<close> of \<^verbatim>\<open>setupRepoAPIURL\<close>\<close>
  "emptyRegexp = Eps"

section \<open>Packages bufio and strconv\<close>

definition MaxScanTokenSize :: nat where
  "MaxScanTokenSize = 64 * 1024"

fun rawLines :: "string \<Rightarrow> string \<Rightarrow> string list" where
  \<comment> \<open>the input cut after every newline; \<open>acc\<close> is the line being read\<close>
  "rawLines acc [] = (if acc = [] then [] else [acc])"
| "rawLines acc (c # cs) =
    (if c = CHR 0x0A then acc # rawLines [] cs else rawLines (acc @ [c]) cs)"

definition dropCR :: "string \<Rightarrow> string" where
  "dropCR l = (if l \<noteq> [] \<and> last l = CHR 0x0D then butlast l else l)"

definition ScanLines :: "string \<Rightarrow> string list \<times> bool" where
  \<comment> \<open>a \<^verbatim>\<open>bufio.Scanner\<close> over a buffer: the lines it delivers, and whether it stopped
      with \<^verbatim>\<open>ErrTooLong\<close> at a line that does not fit its buffer\<close>
  "ScanLines out =
    (let ls = rawLines [] out in
     (map dropCR (takeWhile (\<lambda>l. length l < MaxScanTokenSize) ls),
      list_ex (\<lambda>l. \<not> length l < MaxScanTokenSize) ls))"

fun decimal :: "string \<Rightarrow> nat \<Rightarrow> nat" where
  "decimal [] acc = acc"
| "decimal (c # cs) acc = decimal cs (acc * 10 + (byte c - 48))"

definition Atoi :: "string \<Rightarrow> error + int" where
  \<comment> \<open>\<^verbatim>\<open>strconv.Atoi\<close> with an \<^verbatim>\<open>int\<close> of 64 bits\<close>
  "Atoi s =
    (let neg = HasPrefix s ''-'';
         ds = (if HasPrefix s ''-'' \<or> HasPrefix s ''+'' then drop 1 s else s)
     in if ds = [] \<or> \<not> list_all isDigit ds then Inl ErrSyntax
        else
          let v = decimal ds 0 in
          if \<not> neg \<and> v > 2 ^ 63 - 1 then Inl ErrRange
          else if neg \<and> v > 2 ^ 63 then Inl ErrRange
          else Inr (if neg then - int v else int v))"

function digits :: "nat \<Rightarrow> string" where
  "digits n = (if n < 10 then [char_of (48 + n)] else digits (n div 10) @ [char_of (48 + n mod 10)])"
  by pat_completeness auto
termination
  by (relation "measure id") auto

declare digits.simps [simp del]

definition Itoa :: "int \<Rightarrow> string" where
  "Itoa i = (if i < 0 then ''-'' @ digits (nat (- i)) else digits (nat i))"

section \<open>The data model and the collaborators\<close>

record MergeInfo =
  CommitHash :: string
  UserName :: string
  UserProfileUrl :: string
  UserEmail :: string
  MergeNum :: int
  MergeUrl :: string
  Title :: string

text \<open>The second source file has no \<^verbatim>\<open>UserEmail\<close>.\<close>

record MergeInfo_part000 =
  CommitHash_p :: string
  UserName_p :: string
  UserProfileUrl_p :: string
  MergeNum_p :: int
  MergeUrl_p :: string
  Title_p :: string

text \<open>
  An element of \<^verbatim>\<open>pullsInfo\<close>, the decoded JSON of a pull request. The second
  source file decodes two more fields.
\<close>

record pull =
  pull_Url :: string
  pull_Number :: int
  pull_State :: string
  pull_Title :: string
  pull_User_Login :: string
  pull_User_Url :: string

record pull_part000 = pull +
  pull_MergeCommitSHA :: string
  pull_MergedAt :: string

datatype logarg = S string | E error | M MergeInfo

datatype event =
    Exec "string list"
  | Request string "string option"
  | Printf string "logarg list"
  | Println "string list"

text \<open>
  What the program does not contain is a parameter: the \<^verbatim>\<open>git\<close> executable (its
  standard output, or how it failed, and the path it resolves to, if it does),
  the GitHub API (the decoded response to a
  GET of a URL with an optional \<^verbatim>\<open>Authorization\<close> header, or the error of
  \<^verbatim>\<open>githubAPI\<close>), the Unicode tables, the package \<^verbatim>\<open>semver\<close>, \<^verbatim>\<open>sort.Slice\<close>
  (any algorithm) and the date of the day.
\<close>

record ('v, 'p) world =
  git :: "string list \<Rightarrow> gitfail + string"
  lookPath :: "string option"
  github :: "string \<Rightarrow> string option \<Rightarrow> error + 'p list"
  tables :: unicode_tables
  NewVersion :: "string \<Rightarrow> error + 'v"
  GreaterThan :: "'v \<Rightarrow> 'v \<Rightarrow> bool"
  sort_Slice :: "(MergeInfo \<Rightarrow> MergeInfo \<Rightarrow> bool) \<Rightarrow> MergeInfo list \<Rightarrow> MergeInfo list"
  today :: string

text \<open>
  The package-level variables \<^verbatim>\<open>apiUrl\<close> and \<^verbatim>\<open>argv\<close>, and what the program has
  done so far: the commands it ran, the requests it sent and the lines it
  logged.
\<close>

record state =
  apiUrl :: string
  GitHubToken :: string
  Help :: bool
  trace :: "event list"

record state_part000 = state +
  MainBranch :: string

definition emit :: "event \<Rightarrow> 'a state_scheme \<Rightarrow> 'a state_scheme" where
  "emit e st = st\<lparr>trace := trace st @ [e]\<rparr>"

section \<open>Command-line flags\<close>

text \<open>
  The flags each \<^verbatim>\<open>init\<close> registers: name, whether the flag is boolean, the
  variable it sets and its default. \<^verbatim>\<open>flag.Parse\<close> is modelled for what it does
  with a list of arguments: a flag that is not registered ends the program.
  A failure is the message \<^verbatim>\<open>flag\<close> prints, or \<open>InvalidBoolean value name\<close> for
  the message "invalid boolean value ... for -name: parse error", which quotes
  the value.
\<close>

datatype flagerr = FlagMsg string | InvalidBoolean string string

record flagdef =
  flag_name :: string
  flag_bool :: bool
  flag_var :: string
  flag_default :: string

definition flags :: "flagdef list" where
  \<comment> \<open>\<^verbatim>\<open>init\<close> of \<^verbatim>\<open>main.go\<close>\<close>
  "flags =
    [\<lparr>flag_name = ''github-token'', flag_bool = False, flag_var = ''GitHubToken'',
       flag_default = ''''\<rparr>,
     \<lparr>flag_name = ''help'', flag_bool = True, flag_var = ''Help'', flag_default = ''false''\<rparr>,
     \<lparr>flag_name = ''h'', flag_bool = True, flag_var = ''Help'', flag_default = ''false''\<rparr>]"

definition flags_part000 :: "flagdef list" where
  \<comment> \<open>\<^verbatim>\<open>init\<close> of the second source file\<close>
  "flags_part000 =
    [\<lparr>flag_name = ''github-token'', flag_bool = False, flag_var = ''GitHubToken'',
       flag_default = ''''\<rparr>,
     \<lparr>flag_name = ''main-branch'', flag_bool = False, flag_var = ''MainBranch'',
       flag_default = ''main''\<rparr>,
     \<lparr>flag_name = ''help'', flag_bool = True, flag_var = ''Help'', flag_default = ''false''\<rparr>,
     \<lparr>flag_name = ''h'', flag_bool = True, flag_var = ''Help'', flag_default = ''false''\<rparr>]"

definition ParseBool :: "string \<Rightarrow> bool option" where
  "ParseBool s =
    (if s \<in> set [''1'', ''t'', ''T'', ''TRUE'', ''true'', ''True''] then Some True
     else if s \<in> set [''0'', ''f'', ''F'', ''FALSE'', ''false'', ''False''] then Some False
     else None)"

fun flag_Parse :: "flagdef list \<Rightarrow> (string \<times> string) list \<Rightarrow> string list
    \<Rightarrow> flagerr + (string \<times> string) list" where
  \<comment> \<open>the values of the variables after parsing, or the failure\<close>
  "flag_Parse fs vals [] = Inr vals"
| "flag_Parse fs vals (a # args) =
    (if length a < 2 \<or> \<not> HasPrefix a ''-'' then Inr vals
     else
       let numMinuses = (if HasPrefix a ''--'' then 2 else 1) in
       if numMinuses = 2 \<and> length a = 2 then Inr vals
       else
         let name0 = drop numMinuses a in
         if name0 = [] \<or> HasPrefix name0 ''-'' \<or> HasPrefix name0 ''='' then
           Inl (FlagMsg (''bad flag syntax: '' @ a))
         else
           let (name, val, hasValue) = Cut name0 ''='';
               found = find (\<lambda>f. flag_name f = name) fs
           in case found of
                None \<Rightarrow>
                  if name = ''help'' \<or> name = ''h'' then Inl (FlagMsg ''flag: help requested'')
                  else Inl (FlagMsg (''flag provided but not defined: -'' @ name))
              | Some f \<Rightarrow>
                  if flag_bool f then
                    (if hasValue then
                       (case ParseBool val of
                          None \<Rightarrow> Inl (InvalidBoolean val name)
                        | Some b \<Rightarrow>
                            flag_Parse fs
                              (vals @ [(flag_var f, if b then ''true'' else ''false'')]) args)
                     else flag_Parse fs (vals @ [(flag_var f, ''true'')]) args)
                  else
                    (if hasValue then flag_Parse fs (vals @ [(flag_var f, val)]) args
                     else
                       (case args of
                          [] \<Rightarrow> Inl (FlagMsg (''flag needs an argument: -'' @ name))
                        | v # args' \<Rightarrow> flag_Parse fs (vals @ [(flag_var f, v)]) args')))"

definition flagValue :: "flagdef list \<Rightarrow> (string \<times> string) list \<Rightarrow> string \<Rightarrow> string" where
  \<comment> \<open>the last value a variable was set to, its default otherwise\<close>
  "flagValue fs vals var =
    (case map_of (rev vals) var of
       Some v \<Rightarrow> v
     | None \<Rightarrow> (case find (\<lambda>f. flag_var f = var) fs of
                  Some f \<Rightarrow> flag_default f | None \<Rightarrow> []))"

definition init :: "string list \<Rightarrow> flagerr + state" where
  "init args =
    (case flag_Parse flags [] args of
       Inl e \<Rightarrow> Inl e
     | Inr vals \<Rightarrow>
         Inr \<lparr>apiUrl = [], GitHubToken = flagValue flags vals ''GitHubToken'',
              Help = (flagValue flags vals ''Help'' = ''true''), trace = []\<rparr>)"

definition init_part000 :: "string list \<Rightarrow> flagerr + state_part000" where
  "init_part000 args =
    (case flag_Parse flags_part000 [] args of
       Inl e \<Rightarrow> Inl e
     | Inr vals \<Rightarrow>
         Inr \<lparr>apiUrl = [], GitHubToken = flagValue flags_part000 vals ''GitHubToken'',
              Help = (flagValue flags_part000 vals ''Help'' = ''true''), trace = [],
              MainBranch = flagValue flags_part000 vals ''MainBranch''\<rparr>)"

section \<open>The program: main.go, the tag-delta variant\<close>

definition githubAPI ::
  "('v, 'p) world \<Rightarrow> 'a state_scheme \<Rightarrow> string \<Rightarrow> (error + 'p list) \<times> 'a state_scheme" where
  "githubAPI W st p =
    (let auth = (if GitHubToken st \<noteq> [] then Some (''token '' @ GitHubToken st) else None)
     in (github W (apiUrl st @ p) auth, emit (Request (apiUrl st @ p) auth) st))"

definition execGit ::
  "('v, 'p) world \<Rightarrow> state \<Rightarrow> string list \<Rightarrow> (gitfail + string) \<times> state" where
  "execGit W st args = (git W args, emit (Exec args) st)"

definition execGitOneLine ::
  "('v, 'p) world \<Rightarrow> state \<Rightarrow> string list \<Rightarrow> (error + string) \<times> state" where
  "execGitOneLine W st args =
    (case execGit W st args of
       (Inl f, st') \<Rightarrow> (Inl (GitFailed f), st')
     | (Inr out, st') \<Rightarrow> (Inr (TrimSpace out), st'))"

definition setupRepoAPIURL :: "('v, 'p) world \<Rightarrow> state \<Rightarrow> error option \<times> state" where
  "setupRepoAPIURL W st =
    (case execGitOneLine W st [''config'', ''--get'', ''remote.origin.url''] of
       (Inl err, st1) \<Rightarrow> (Some err, st1)
     | (Inr origin, st1) \<Rightarrow>
         (case url_Parse origin of
            Inl err \<Rightarrow> (Some err, st1)
          | Inr parsed \<Rightarrow>
              if Host parsed \<noteq> ''github.com''
                then (Some (Msg ''only github.com repos are supported''), st1)
              else
                let orgWithProject = TrimSuffix (Path parsed) ''.git'' in
                (case regexp_MatchString emptyRegexp orgWithProject of
                   Inl err \<Rightarrow> (Some err, st1)
                 | Inr matched \<Rightarrow>
                     if \<not> matched then (Some (Msg ''wrong repo name''), st1)
                     else
                       (None,
                        st1\<lparr>apiUrl := ''https://api.github.com/repos'' @ orgWithProject
                                         @ ''/''\<rparr>))))"

fun getLastGitTag_loop ::
  "('v, 'p) world \<Rightarrow> string list \<Rightarrow> 'v option \<times> string \<times> state \<Rightarrow> 'v option \<times> string \<times> state"
  where
  "getLastGitTag_loop W [] acc = acc"
| "getLastGitTag_loop W (text # ls) (maxVer, maxVerAsIs, st) =
    (case NewVersion W text of
       Inl err \<Rightarrow>
         getLastGitTag_loop W ls
           (maxVer, maxVerAsIs,
            emit (Printf ''Wrong semver tag %q: %s. Will ignore it.'' [S text, E err]) st)
     | Inr curVer \<Rightarrow>
         if maxVer = None \<or> GreaterThan W curVer (the maxVer)
           then getLastGitTag_loop W ls (Some curVer, text, st)
         else getLastGitTag_loop W ls (maxVer, maxVerAsIs, st))"

definition getLastGitTag :: "('v, 'p) world \<Rightarrow> state \<Rightarrow> (error + string) \<times> state" where
  "getLastGitTag W st =
    (case execGit W st [''tag''] of
       (Inl f, st1) \<Rightarrow> (Inl (Wrapped ''can't get git tag list'' (GitFailed f)), st1)
     | (Inr out, st1) \<Rightarrow>
         (case ScanLines out of (ls, tooLong) \<Rightarrow>
            (case getLastGitTag_loop W ls (None, [], st1) of (maxVer, maxVerAsIs, st2) \<Rightarrow>
               if tooLong then (Inl (Wrapped ''can't parse git tag list'' ErrTooLong), st2)
               else (Inr maxVerAsIs, st2))))"

fun populateMergeWithInfo_loop ::
  "('v, pull) world \<Rightarrow> MergeInfo list \<Rightarrow> state \<Rightarrow> MergeInfo list \<times> state" where
  "populateMergeWithInfo_loop W [] st = ([], st)"
| "populateMergeWithInfo_loop W (m # ms) st =
    (let commitSha = CommitHash m;
         st1 = emit (Printf ''Get pull request by commit %s from %s...''
                        [S commitSha, S (UserName m)]) st
     in case githubAPI W st1 (''commits/'' @ commitSha @ ''/pulls'') of
          (Inl err, st2) \<Rightarrow>
            (case populateMergeWithInfo_loop W ms
                    (emit (Printf ''Can't get pull requests by commit %s: %s''
                             [S commitSha, E err]) st2) of
               (ms', st3) \<Rightarrow> (m # ms', st3))
        | (Inr pullsInfo, st2) \<Rightarrow>
            (case find (\<lambda>pull. pull_State pull = ''closed'') pullsInfo of
               Some pull \<Rightarrow>
                 (case populateMergeWithInfo_loop W ms st2 of
                    (ms', st3) \<Rightarrow>
                      (m\<lparr>MergeNum := pull_Number pull,
                         MergeUrl := pull_Url pull,
                         Title := title (tables W) (pull_Title pull),
                         UserName := pull_User_Login pull,
                         UserProfileUrl := pull_User_Url pull\<rparr> # ms', st3))
             | None \<Rightarrow>
                 (case populateMergeWithInfo_loop W ms
                         (emit (Printf ''There is no closed PR found for merge %+v...'' [M m])
                            st2) of
                    (ms', st3) \<Rightarrow> (m # ms', st3))))"

definition populateMergeWithInfo ::
  "('v, pull) world \<Rightarrow> MergeInfo list \<Rightarrow> state \<Rightarrow> error option \<times> MergeInfo list \<times> state" where
  "populateMergeWithInfo W merges st =
    (case populateMergeWithInfo_loop W merges st of (merges', st') \<Rightarrow> (None, merges', st'))"

definition gitLogArgs :: "string \<Rightarrow> string list" where
  \<comment> \<open>the arguments of the \<^verbatim>\<open>git log\<close> of \<^verbatim>\<open>getGitMerges\<close>\<close>
  "gitLogArgs lastTag =
    [''log'', ''--merges'', ''--pretty=format:%H --- %an --- %aE --- %s'',
     lastTag @ ''..origin/master'']"

fun getGitMerges_loop :: "string list \<Rightarrow> MergeInfo list \<times> state \<Rightarrow> MergeInfo list \<times> state"
  where
  "getGitMerges_loop [] acc = acc"
| "getGitMerges_loop (text # ls) (merges, st) =
    (let line = SplitN text '' --- '' 4 in
     if length line \<noteq> 4 then
       getGitMerges_loop ls
         (merges, emit (Printf ''Wrong merge line format %q. Will ignore it.'' [S text]) st)
     else
       let mergeText = line ! 3 in
       case FindStringSubmatch mergeRegexp mergeText of
         None \<Rightarrow> getGitMerges_loop ls (merges, emit (Printf ''Ignore merge %q'' [S text]) st)
       | Some (whole, caps) \<Rightarrow>
           (case Atoi (group caps 1) of
              Inl err \<Rightarrow>
                getGitMerges_loop ls
                  (merges,
                   emit (Printf ''Wrong merge title format %q: %s. Will ignore it.''
                           [S text, E err]) st)
            | Inr mergeNumber \<Rightarrow>
                getGitMerges_loop ls
                  (merges @ [\<lparr>CommitHash = line ! 0, UserName = line ! 1,
                                UserProfileUrl = [], UserEmail = line ! 2,
                                MergeNum = mergeNumber, MergeUrl = [], Title = []\<rparr>], st)))"

definition getGitMerges ::
  "('v, pull) world \<Rightarrow> state \<Rightarrow> string \<Rightarrow> (error + MergeInfo list) \<times> state" where
  "getGitMerges W st lastTag =
    (case execGit W st (gitLogArgs lastTag) of
       (Inl f, st1) \<Rightarrow> (Inl (GitFailed f), st1)
     | (Inr out, st1) \<Rightarrow>
         (case ScanLines out of (ls, tooLong) \<Rightarrow>
            (case getGitMerges_loop ls ([], st1) of (merges, st2) \<Rightarrow>
               if tooLong then (Inl (Wrapped ''can't parse git merges list'' ErrTooLong), st2)
               else
                 let sorted = sort_Slice W (\<lambda>a b. MergeNum a > MergeNum b) merges in
                 (case populateMergeWithInfo W sorted st2 of
                    (None, merges', st3) \<Rightarrow> (Inr merges', st3)
                  | (Some err, merges', st3) \<Rightarrow>
                      (Inr merges',
                       emit (Printf ''can't get GitHub names for some contributors: %s''
                               [E err]) st3)))))"

definition NewTagPlaceholder :: string where
  "NewTagPlaceholder = ''NEW_TAG_HERE''"

definition renderMerge :: "MergeInfo \<Rightarrow> string" where
  \<comment> \<open>the body of \<^verbatim>\<open>{{range .Merges -}}\<close>, one line of the template\<close>
  "renderMerge m =
    ''* '' @ Title m @ ''. [#'' @ Itoa (MergeNum m) @ '']('' @ MergeUrl m @ '') (['' @ UserName m
      @ '']('' @ UserProfileUrl m @ ''))'' @ [CHR 0x0A]"

definition generateChangelogSection ::
  "('v, 'p) world \<Rightarrow> MergeInfo list \<Rightarrow> error + string" where
  "generateChangelogSection W merges =
    Inr ([CHR 0x0A] @ ''### Tag '' @ NewTagPlaceholder @ '' ('' @ today W @ '')'' @ [CHR 0x0A]
         @ concat (map renderMerge merges))"

definition generate :: "('v, pull) world \<Rightarrow> state \<Rightarrow> (error + string) \<times> state" where
  "generate W st =
    (case setupRepoAPIURL W st of
       (Some err, st1) \<Rightarrow> (Inl (Wrapped ''can't get repo url'' err), st1)
     | (None, st1) \<Rightarrow>
         (case getLastGitTag W st1 of
            (Inl err, st2) \<Rightarrow> (Inl (Wrapped ''can't get last repo tag'' err), st2)
          | (Inr lastTag, st2) \<Rightarrow>
              (case getGitMerges W st2 lastTag of
                 (Inl err, st3) \<Rightarrow> (Inl (Wrapped ''can't get merges from last tag'' err), st3)
               | (Inr merges, st3) \<Rightarrow>
                   (case generateChangelogSection W merges of
                      Inl err \<Rightarrow> (Inl (Wrapped ''can't generate changelog'' err), st3)
                    | Inr cl \<Rightarrow> (Inr cl, st3)))))"

section \<open>The program: the second source file, the closed-PR-list variant\<close>

definition execGit_part000 ::
  "('v, 'p) world \<Rightarrow> state_part000 \<Rightarrow> string list \<Rightarrow> (error + string) \<times> state_part000" where
  "execGit_part000 W st args =
    (let cmd = (case lookPath W of
                  None \<Rightarrow> Join (''git'' # args) '' ''
                | Some path \<Rightarrow> Join (path # args) '' '');
         st1 = emit (Exec args) (emit (Println [''#'', cmd]) st)
     in
     case git W args of
       Inl (ExitError status stderr) \<Rightarrow> (Inl (Msg (status @ '': '' @ stderr)), st1)
     | Inl (OtherError msg stderr) \<Rightarrow>
         (Inl (GitFailed (OtherError msg stderr)), emit (Println [stderr]) st1)
     | Inr out \<Rightarrow> (Inr out, st1))"

definition execGitOneLine_part000 ::
  "('v, 'p) world \<Rightarrow> state_part000 \<Rightarrow> string list \<Rightarrow> (error + string) \<times> state_part000" where
  "execGitOneLine_part000 W st args =
    (case execGit_part000 W st args of
       (Inl err, st') \<Rightarrow> (Inl err, st')
     | (Inr out, st') \<Rightarrow> (Inr (TrimSpace out), st'))"

definition setupRepoAPIURL_part000 ::
  "('v, 'p) world \<Rightarrow> state_part000 \<Rightarrow> error option \<times> state_part000" where
  "setupRepoAPIURL_part000 W st =
    (case execGitOneLine_part000 W st [''config'', ''--get'', ''remote.origin.url''] of
       (Inl err, st1) \<Rightarrow> (Some err, st1)
     | (Inr origin0, st1) \<Rightarrow>
         let origin =
               (case FindStringSubmatch gitUrlRegex origin0 of
                  Some (whole, caps) \<Rightarrow>
                    ''git://'' @ Join [group caps 1, group caps 2, group caps 3] ''/''
                | None \<Rightarrow> origin0)
         in
         (case url_Parse origin of
            Inl err \<Rightarrow> (Some (Wrapped ''url parse'' err), st1)
          | Inr parsed \<Rightarrow>
              if Host parsed \<noteq> ''github.com''
                then (Some (Msg ''only github.com repos are supported''), st1)
              else
                let orgWithProject = TrimSuffix (Path parsed) ''.git'' in
                (case regexp_MatchString emptyRegexp orgWithProject of
                   Inl err \<Rightarrow> (Some err, st1)
                 | Inr matched \<Rightarrow>
                     if \<not> matched then (Some (Msg ''wrong repo name''), st1)
                     else
                       let url = ''https://api.github.com/repos'' @ orgWithProject @ ''/'' in
                       (None, emit (Println [''apiUrl:'', url]) (st1\<lparr>apiUrl := url\<rparr>)))))"

definition getGitMerges_part000 ::
  "('v, pull_part000) world \<Rightarrow> state_part000 \<Rightarrow> string
     \<Rightarrow> (error + MergeInfo_part000 list) \<times> state_part000" where
  "getGitMerges_part000 W st lastTag =
    (case githubAPI W st ''pulls?state=closed&sort=updated&direction=desc&per_page=100'' of
       (Inl err, st1) \<Rightarrow> (Inl (Wrapped ''get pulls from githubAPI'' err), st1)
     | (Inr pullsInfo, st1) \<Rightarrow>
         (Inr (map (\<lambda>pi. \<lparr>CommitHash_p = pull_MergeCommitSHA pi,
                           UserName_p = pull_User_Login pi,
                           UserProfileUrl_p = pull_User_Url pi,
                           MergeNum_p = pull_Number pi,
                           MergeUrl_p = pull_Url pi,
                           Title_p = title_part000 (tables W) (pull_Title pi)\<rparr>)
                   (filter (\<lambda>pi. \<not> pull_MergedAt pi = []) pullsInfo)),
          st1))"

definition renderMerge_part000 :: "MergeInfo_part000 \<Rightarrow> string" where
  "renderMerge_part000 m =
    ''* '' @ Title_p m @ ''. [#'' @ Itoa (MergeNum_p m) @ '']('' @ MergeUrl_p m @ '') (['' @ UserName_p m
      @ '']('' @ UserProfileUrl_p m @ ''))'' @ [CHR 0x0A]"

definition generateChangelogSection_part000 ::
  "('v, 'p) world \<Rightarrow> MergeInfo_part000 list \<Rightarrow> error + string" where
  "generateChangelogSection_part000 W merges =
    Inr ([CHR 0x0A] @ ''### Tag '' @ NewTagPlaceholder @ '' ('' @ today W @ '')'' @ [CHR 0x0A]
         @ concat (map renderMerge_part000 merges))"

definition generate_part000 ::
  "('v, pull_part000) world \<Rightarrow> state_part000 \<Rightarrow> (error + string) \<times> state_part000" where
  "generate_part000 W st =
    (case setupRepoAPIURL_part000 W st of
       (Some err, st1) \<Rightarrow> (Inl (Wrapped ''can't get repo url'' err), st1)
     | (None, st1) \<Rightarrow>
         let lastTag = ''unknown'' in
         (case getGitMerges_part000 W st1 lastTag of
            (Inl err, st2) \<Rightarrow>
              (Inl (Wrapped (''can't get merges from last tag '' @ [CHR 0x22] @ lastTag
                               @ [CHR 0x22]) err), st2)
          | (Inr merges, st2) \<Rightarrow>
              (case generateChangelogSection_part000 W merges of
                 Inl err \<Rightarrow> (Inl (Wrapped ''can't generate changelog'' err), st2)
               | Inr cl \<Rightarrow> (Inr cl, st2))))"

section \<open>Reading the trace\<close>

fun execs :: "event list \<Rightarrow> string list list" where
  \<comment> \<open>the \<^verbatim>\<open>git\<close> commands of a trace, in order\<close>
  "execs [] = []"
| "execs (Exec args # es) = args # execs es"
| "execs (_ # es) = execs es"

fun logged :: "event list \<Rightarrow> event list" where
  \<comment> \<open>the log lines of a trace, in order\<close>
  "logged [] = []"
| "logged (Printf f args # es) = Printf f args # logged es"
| "logged (Println args # es) = Println args # logged es"
| "logged (_ # es) = logged es"

definition wrongSemverTag :: "('v, 'p) world \<Rightarrow> string \<Rightarrow> event" where
  \<comment> \<open>the line \<^verbatim>\<open>getLastGitTag\<close> logs for a tag that is not a version\<close>
  "wrongSemverTag W text =
    Printf ''Wrong semver tag %q: %s. Will ignore it.''
      [S text, E (case NewVersion W text of Inl err \<Rightarrow> err | Inr v \<Rightarrow> Msg [])]"

definition validTag :: "('v, 'p) world \<Rightarrow> string \<Rightarrow> bool" where
  "validTag W text = (case NewVersion W text of Inl err \<Rightarrow> False | Inr v \<Rightarrow> True)"

definition versionOf :: "('v, 'p) world \<Rightarrow> string \<Rightarrow> 'v" where
  "versionOf W text = (case NewVersion W text of Inr v \<Rightarrow> v)"


text \<open>
  What \<^verbatim>\<open>populateMergeWithInfo\<close> does for one merge commit, given the values of
  \<^verbatim>\<open>apiUrl\<close> and of the token: the request it sends, the entry it leaves and
  the events it adds to the trace.
\<close>

definition pullsRequest :: "string \<Rightarrow> string \<Rightarrow> MergeInfo \<Rightarrow> string \<times> string option" where
  "pullsRequest url token m =
    (url @ ''commits/'' @ CommitHash m @ ''/pulls'',
     if token \<noteq> [] then Some (''token '' @ token) else None)"

definition closedPull :: "('v, pull) world \<Rightarrow> string \<Rightarrow> string \<Rightarrow> MergeInfo \<Rightarrow> pull option" where
  \<comment> \<open>the first pull request of the response whose state is closed, if the
      request succeeds and there is one\<close>
  "closedPull W url token m =
    (case github W (fst (pullsRequest url token m)) (snd (pullsRequest url token m)) of
       Inl err \<Rightarrow> None
     | Inr pullsInfo \<Rightarrow> find (\<lambda>pull. pull_State pull = ''closed'') pullsInfo)"

definition enriched :: "('v, pull) world \<Rightarrow> string \<Rightarrow> string \<Rightarrow> MergeInfo \<Rightarrow> MergeInfo" where
  "enriched W url token m =
    (case closedPull W url token m of
       None \<Rightarrow> m
     | Some pull \<Rightarrow>
         m\<lparr>MergeNum := pull_Number pull,
           MergeUrl := pull_Url pull,
           Title := title (tables W) (pull_Title pull),
           UserName := pull_User_Login pull,
           UserProfileUrl := pull_User_Url pull\<rparr>)"

definition enrichEvents :: "('v, pull) world \<Rightarrow> string \<Rightarrow> string \<Rightarrow> MergeInfo \<Rightarrow> event list" where
  "enrichEvents W url token m =
    [Printf ''Get pull request by commit %s from %s...'' [S (CommitHash m), S (UserName m)],
     Request (fst (pullsRequest url token m)) (snd (pullsRequest url token m))]
    @ (case github W (fst (pullsRequest url token m)) (snd (pullsRequest url token m)) of
         Inl err \<Rightarrow>
           [Printf ''Can't get pull requests by commit %s: %s'' [S (CommitHash m), E err]]
       | Inr pullsInfo \<Rightarrow>
           (case find (\<lambda>pull. pull_State pull = ''closed'') pullsInfo of
              None \<Rightarrow> [Printf ''There is no closed PR found for merge %+v...'' [M m]]
            | Some pull \<Rightarrow> []))"

definition sampleTables :: unicode_tables where
  \<comment> \<open>an excerpt of the Unicode tables: the Latin-1 lower-case letters and the
      digraph U+01C4..U+01C6 with its title-case form U+01C5\<close>
  "sampleTables =
    \<lparr>TitleRange = (\<lambda>r. r = 0x1C5),
     TitleCaseMap = (\<lambda>r. if (0xE0 \<le> r \<and> r \<le> 0xFE \<and> r \<noteq> 0xF7) then r - 32
                      else if r = 0x1C4 \<or> r = 0x1C6 then 0x1C5 else r)\<rparr>"

section \<open>Sample collaborators\<close>

text \<open>
  Concrete collaborators, to run the program on examples: a repository whose
  \<^verbatim>\<open>git\<close> answers \<^verbatim>\<open>config --get remote.origin.url\<close>, \<^verbatim>\<open>tag\<close> and \<^verbatim>\<open>log\<close> with
  given outputs and fails otherwise, an API that answers from a table, versions
  that are triples of numbers, and insertion sort.
\<close>

definition state0 :: state where
  "state0 = \<lparr>apiUrl = [], GitHubToken = [], Help = False, trace = []\<rparr>"

definition state0_part000 :: state_part000 where
  "state0_part000 =
    \<lparr>apiUrl = [], GitHubToken = [], Help = False, trace = [], MainBranch = ''main''\<rparr>"

fun insertBy :: "('a \<Rightarrow> 'a \<Rightarrow> bool) \<Rightarrow> 'a \<Rightarrow> 'a list \<Rightarrow> 'a list" where
  "insertBy lt x [] = [x]"
| "insertBy lt x (y # ys) = (if lt y x then y # insertBy lt x ys else x # y # ys)"

definition insertionSort :: "('a \<Rightarrow> 'a \<Rightarrow> bool) \<Rightarrow> 'a list \<Rightarrow> 'a list" where
  "insertionSort lt xs = foldr (insertBy lt) xs []"

fun numbers :: "string list \<Rightarrow> nat list option" where
  "numbers [] = Some []"
| "numbers (p # ps) =
    (if p \<noteq> [] \<and> list_all isDigit p
     then map_option (\<lambda>ns. decimal p 0 # ns) (numbers ps) else None)"

definition tripleVersion :: "string \<Rightarrow> error + nat list" where
  \<comment> \<open>versions \<^verbatim>\<open>major.minor.patch\<close>, the core of a semantic version\<close>
  "tripleVersion s =
    (case numbers (SplitN s ''.'' 4) of
       Some [a, b, c] \<Rightarrow> Inr [a, b, c]
     | _ \<Rightarrow> Inl (Msg ''Invalid Semantic Version''))"

fun tripleGreater :: "nat list \<Rightarrow> nat list \<Rightarrow> bool" where
  "tripleGreater (a # as) (b # bs) = (a > b \<or> (a = b \<and> tripleGreater as bs))"
| "tripleGreater _ _ = False"

definition sampleWorld ::
  "string \<Rightarrow> string \<Rightarrow> string \<Rightarrow> (string \<times> 'p list) list \<Rightarrow> (nat list, 'p) world" where
  "sampleWorld remote tags merges pulls =
    \<lparr>git = (\<lambda>args.
        if args = [''config'', ''--get'', ''remote.origin.url''] then Inr remote
        else if args = [''tag''] then Inr tags
        else if take 2 args = [''log'', ''--merges''] then Inr merges
        else Inl (ExitError ''exit status 1'' ''usage'')),
     lookPath = Some ''/usr/bin/git'',
     github = (\<lambda>url auth.
        case map_of pulls url of
          Some ps \<Rightarrow> Inr ps
        | None \<Rightarrow> Inl (Transport ''can't get response'')),
     tables = sampleTables,
     NewVersion = tripleVersion,
     GreaterThan = tripleGreater,
     sort_Slice = insertionSort,
     today = ''2026-01-01''\<rparr>"



definition threeMerges :: string where
  "threeMerges =
     ''c3 --- Ann --- ann@example.org --- Merge pull request #3 from a/x'' @ [CHR 0x0A]
     @ ''c10 --- Bob --- bob@example.org --- Merge pull request #10 from b/y'' @ [CHR 0x0A]
     @ ''c1 --- Cy --- cy@example.org --- Merge pull request #1 from c/z'' @ [CHR 0x0A]"

definition pull2 :: pull where
  "pull2 = \<lparr>pull_Url = ''https://github.com/org/repo/pull/2'', pull_Number = 2,
             pull_State = ''closed'', pull_Title = ''fix bug'', pull_User_Login = ''bob'',
             pull_User_Url = ''https://github.com/bob''\<rparr>"

definition pull42 :: pull_part000 where
  "pull42 = \<lparr>pull_Url = ''https://github.com/org/repo/pull/42'', pull_Number = 42,
              pull_State = ''closed'', pull_Title = ''fix bug'', pull_User_Login = ''alice'',
              pull_User_Url = ''https://github.com/alice'', pull_MergeCommitSHA = ''abc'',
              pull_MergedAt = ''2026-01-01T00:00:00Z''\<rparr>"

definition pull43 :: pull_part000 where
  "pull43 = \<lparr>pull_Url = ''https://github.com/org/repo/pull/43'', pull_Number = 43,
              pull_State = ''closed'', pull_Title = ''not merged'', pull_User_Login = ''bob'',
              pull_User_Url = ''https://github.com/bob'', pull_MergeCommitSHA = ''def'',
              pull_MergedAt = ''''\<rparr>"

definition mergeC10 :: MergeInfo where
  "mergeC10 = \<lparr>CommitHash = ''c10'', UserName = ''Bob'', UserProfileUrl = [],
                 UserEmail = ''bob@example.org'', MergeNum = 10, MergeUrl = [], Title = []\<rparr>"

definition mergeC3 :: MergeInfo where
  "mergeC3 = \<lparr>CommitHash = ''c3'', UserName = ''Ann'', UserProfileUrl = [],
                UserEmail = ''ann@example.org'', MergeNum = 3, MergeUrl = [], Title = []\<rparr>"

definition mergeC1 :: MergeInfo where
  "mergeC1 = \<lparr>CommitHash = ''c1'', UserName = ''Cy'', UserProfileUrl = [],
                UserEmail = ''cy@example.org'', MergeNum = 1, MergeUrl = [], Title = []\<rparr>"

section \<open>UTF-8: decoding an encoded rune\<close>

lemma byte_char_of: "n < 256 \<Longrightarrow> byte (char_of n) = n"
  by (simp add: byte_def)

lemma mod_offset: "q < n \<Longrightarrow> (k * n + q) mod n = (q::nat)"
  by simp

lemma decode_encode_1:
  assumes "r \<le> 0x7F"
  shows "DecodeRuneInString (runeToString r @ rest) = (r, 1)"
  using assms by (simp add: runeToString_def byte_char_of RuneSelf_def)

lemma decode_encode_2:
  assumes "0x7F < r" "r \<le> 0x7FF"
  shows "DecodeRuneInString (runeToString r @ rest) = (r, 2)"
proof -
  define a where "a = r div 64"
  define m0 where "m0 = r mod 64"
  have r: "r = a * 64 + m0" and m0: "m0 < 64" by (simp_all add: a_def m0_def)
  have a: "2 \<le> a" "a \<le> 31" using assms r m0 by linarith+
  define b0 where "b0 = 0xC0 + a"
  define b1 where "b1 = 0x80 + m0"
  have r0: "0xC2 \<le> b0" "b0 < 0xE0" unfolding b0_def using a by linarith+
  have r0m: "b0 mod 32 = a" unfolding b0_def using mod_offset [of a 32 6] a by simp
  have r1: "0x80 \<le> b1" "b1 \<le> 0xBF" unfolding b1_def using m0 by linarith+
  have r1m: "b1 mod 64 = m0" unfolding b1_def using mod_offset [of m0 64 2] m0 by simp
  have e: "runeToString r = [char_of b0, char_of b1]"
    using assms by (simp add: runeToString_def b0_def b1_def a_def m0_def)
  have by0: "byte (char_of b0) = b0" using r0 by (simp add: byte_char_of)
  have by1: "byte (char_of b1) = b1" using r1 by (simp add: byte_char_of)
  show ?thesis unfolding e using r0 r1
    by (simp add: by0 by1 r0m r1m r RuneSelf_def Let_def)
qed

lemma split3:
  fixes r :: nat
  obtains q m1 m0 where "q = r div 4096" "m1 = (r div 64) mod 64" "m0 = r mod 64"
    "r = q * 4096 + m1 * 64 + m0" "m1 < 64" "m0 < 64"
proof -
  define a where "a = r div 64"
  have "a div 64 = r div 4096" unfolding a_def by (simp add: div_mult2_eq [symmetric])
  moreover have "a = a div 64 * 64 + a mod 64" by simp
  moreover have "r = a * 64 + r mod 64" unfolding a_def by simp
  ultimately have "r = r div 4096 * 4096 + (a mod 64) * 64 + r mod 64" by simp
  then show ?thesis using that [of "r div 4096" "(r div 64) mod 64" "r mod 64"]
    unfolding a_def by simp
qed

lemma decode_encode_3:
  assumes "0x7FF < r" "r \<le> 0xFFFF" "r < 0xD800 \<or> 0xDFFF < r"
  shows "DecodeRuneInString (runeToString r @ rest) = (r, 3)"
proof -
  obtain q m1 m0 where d: "q = r div 4096" "m1 = (r div 64) mod 64" "m0 = r mod 64"
    and r: "r = q * 4096 + m1 * 64 + m0" and m: "m1 < 64" "m0 < 64"
    by (rule split3)
  have q: "q \<le> 15" using assms r m by linarith
  define b0 where "b0 = 0xE0 + q"
  define b1 where "b1 = 0x80 + m1"
  define b2 where "b2 = 0x80 + m0"
  have r0: "0xE0 \<le> b0" "b0 < 0xF0" unfolding b0_def using q by linarith+
  have r0m: "b0 mod 16 = q" unfolding b0_def using mod_offset [of q 16 14] q by simp
  have r1: "0x80 \<le> b1" "b1 \<le> 0xBF" unfolding b1_def using m by linarith+
  have r1m: "b1 mod 64 = m1" unfolding b1_def using mod_offset [of m1 64 2] m by simp
  have r1a: "b0 = 0xE0 \<Longrightarrow> 0xA0 \<le> b1" unfolding b0_def b1_def using assms r m by linarith
  have r1b: "b0 = 0xED \<Longrightarrow> b1 \<le> 0x9F" unfolding b0_def b1_def using assms r m by linarith
  have r2: "0x80 \<le> b2" "b2 \<le> 0xBF" unfolding b2_def using m by linarith+
  have r2m: "b2 mod 64 = m0" unfolding b2_def using mod_offset [of m0 64 2] m by simp
  have e: "runeToString r = [char_of b0, char_of b1, char_of b2]"
    using assms by (auto simp add: runeToString_def b0_def b1_def b2_def MaxRune_def d)
  have by0: "byte (char_of b0) = b0" using r0 by (simp add: byte_char_of)
  have by1: "byte (char_of b1) = b1" using r1 by (simp add: byte_char_of)
  have by2: "byte (char_of b2) = b2" using r2 by (simp add: byte_char_of)
  show ?thesis unfolding e using r0 r1 r1a r1b r2
    by (auto simp add: by0 by1 by2 r0m r1m r2m r RuneSelf_def Let_def)
qed

lemma split4:
  fixes r :: nat
  obtains q m2 m1 m0 where "q = r div 262144" "m2 = (r div 4096) mod 64"
    "m1 = (r div 64) mod 64" "m0 = r mod 64"
    "r = q * 262144 + m2 * 4096 + m1 * 64 + m0" "m2 < 64" "m1 < 64" "m0 < 64"
proof -
  obtain q' m1 m0 where d: "q' = r div 4096" "m1 = (r div 64) mod 64" "m0 = r mod 64"
    and r: "r = q' * 4096 + m1 * 64 + m0" and m: "m1 < 64" "m0 < 64"
    by (rule split3)
  have "q' div 64 = r div 262144" unfolding d by (simp add: div_mult2_eq [symmetric])
  moreover have "q' = q' div 64 * 64 + q' mod 64" by simp
  ultimately have "r = r div 262144 * 262144 + (q' mod 64) * 4096 + m1 * 64 + m0"
    using r by simp
  then show ?thesis using that [of "r div 262144" "q' mod 64" m1 m0] m d by simp
qed

lemma decode_encode_4:
  assumes "0xFFFF < r" "r \<le> 0x10FFFF"
  shows "DecodeRuneInString (runeToString r @ rest) = (r, 4)"
proof -
  obtain q m2 m1 m0 where d: "q = r div 262144" "m2 = (r div 4096) mod 64"
      "m1 = (r div 64) mod 64" "m0 = r mod 64"
    and r: "r = q * 262144 + m2 * 4096 + m1 * 64 + m0" and m: "m2 < 64" "m1 < 64" "m0 < 64"
    by (rule split4)
  have q: "q \<le> 4" using assms r m by linarith
  define b0 where "b0 = 0xF0 + q"
  define b1 where "b1 = 0x80 + m2"
  define b2 where "b2 = 0x80 + m1"
  define b3 where "b3 = 0x80 + m0"
  have r0: "0xF0 \<le> b0" "b0 \<le> 0xF4" unfolding b0_def using q by linarith+
  have r0m: "b0 mod 8 = q" unfolding b0_def using mod_offset [of q 8 30] q by simp
  have r1: "0x80 \<le> b1" "b1 \<le> 0xBF" unfolding b1_def using m by linarith+
  have r1m: "b1 mod 64 = m2" unfolding b1_def using mod_offset [of m2 64 2] m by simp
  have r1a: "b0 = 0xF0 \<Longrightarrow> 0x90 \<le> b1" unfolding b0_def b1_def using assms r m by linarith
  have r1b: "b0 = 0xF4 \<Longrightarrow> b1 \<le> 0x8F" unfolding b0_def b1_def using assms r m by linarith
  have r2: "0x80 \<le> b2" "b2 \<le> 0xBF" unfolding b2_def using m by linarith+
  have r2m: "b2 mod 64 = m1" unfolding b2_def using mod_offset [of m1 64 2] m by simp
  have r3: "0x80 \<le> b3" "b3 \<le> 0xBF" unfolding b3_def using m by linarith+
  have r3m: "b3 mod 64 = m0" unfolding b3_def using mod_offset [of m0 64 2] m by simp
  have e: "runeToString r = [char_of b0, char_of b1, char_of b2, char_of b3]"
    using assms by (auto simp add: runeToString_def b0_def b1_def b2_def b3_def MaxRune_def d)
  have by0: "byte (char_of b0) = b0" using r0 by (simp add: byte_char_of)
  have by1: "byte (char_of b1) = b1" using r1 by (simp add: byte_char_of)
  have by2: "byte (char_of b2) = b2" using r2 by (simp add: byte_char_of)
  have by3: "byte (char_of b3) = b3" using r3 by (simp add: byte_char_of)
  show ?thesis unfolding e using r0 r1 r1a r1b r2 r3
    by (auto simp add: by0 by1 by2 by3 r0m r1m r2m r3m r RuneSelf_def Let_def)
qed

lemma decode_encode:
  assumes "ValidRune r"
  shows "DecodeRuneInString (runeToString r @ rest) = (r, length (runeToString r))"
proof -
  consider "r \<le> 0x7F" | "0x7F < r" "r \<le> 0x7FF" | "0x7FF < r" "r \<le> 0xFFFF" | "0xFFFF < r"
    by linarith
  then show ?thesis
  proof cases
    case 1 then show ?thesis using decode_encode_1 [of r rest] by (simp add: runeToString_def)
  next
    case 2 then show ?thesis using decode_encode_2 [of r rest] by (simp add: runeToString_def)
  next
    case 3 then show ?thesis using decode_encode_3 [of r rest] assms
      by (auto simp add: runeToString_def ValidRune_def MaxRune_def)
  next
    case 4 then show ?thesis using decode_encode_4 [of r rest] assms
      by (auto simp add: runeToString_def ValidRune_def MaxRune_def)
  qed
qed


section \<open>Claims about title casing\<close>

lemma title_ascii_lower:
  assumes "97 \<le> byte c" "byte c \<le> 122"
  shows "title U (c # cs) = char_of (byte c - 32) # cs"
  using assms
  by (simp add: title_def RuneSelf_def IsTitle_def ToTitle_def MaxLatin1_def MaxASCII_def
      runeToString_def)

lemma title_ascii_other:
  assumes "byte c < 97 \<or> (122 < byte c \<and> byte c < 128)"
  shows "title U (c # cs) = c # cs"
  using assms
  by (auto simp add: title_def RuneSelf_def IsTitle_def ToTitle_def MaxLatin1_def MaxASCII_def
      runeToString_def byte_def)

lemma title_part000_eq: "title_part000 U s = title U (TrimSpace s)"
  by (simp add: title_part000_def title_def Let_def)

lemma TrimSpace_add_feature: "TrimSpace ''add feature'' = ''add feature''"
  by code_simp

lemma TrimSpace_Already_Title: "TrimSpace ''Already Title'' = ''Already Title''"
  by code_simp

lemma TrimSpace_padded: "TrimSpace ''  add feature  '' = ''add feature''"
  by code_simp

lemma char_of_65: "char_of (65::nat) = CHR ''A''"
  by code_simp

lemma title_add_feature: "title U ''add feature'' = ''Add feature''"
  using title_ascii_lower [of "CHR ''a''" U "''dd feature''"]
  by (simp add: byte_def char_of_65)

lemma title_Already_Title: "title U ''Already Title'' = ''Already Title''"
  using title_ascii_other [of "CHR ''A''" U "''lready Title''"]
  by (simp add: byte_def)

text \<open>
  C7. Title casing maps the empty string to the empty string. On a non-empty
  input it decodes the first character: when that character is title case
  (\<^verbatim>\<open>unicode.IsTitle\<close>) the input is returned as it is, otherwise the character
  is replaced by its title-case form (\<^verbatim>\<open>unicode.ToTitle\<close>) and the rest of the
  input is kept byte for byte. The closed-PR-list variant does the same after
  trimming surrounding white space. \<^verbatim>\<open>"add feature"\<close> becomes
  \<^verbatim>\<open>"Add feature"\<close> and \<^verbatim>\<open>"Already Title"\<close> stays as it is, in both variants.
\<close>

theorem title_rule:
  "title U [] = [] \<and> title_part000 U [] = []
   \<and> (ValidRune r \<longrightarrow>
        title U (runeToString r @ rest) =
          (if IsTitle U r then runeToString r @ rest
           else runeToString (ToTitle U r) @ rest))
   \<and> (s \<noteq> [] \<longrightarrow>
        title U s =
          (if IsTitle U (fst (DecodeRuneInString s)) then s
           else runeToString (ToTitle U (fst (DecodeRuneInString s)))
                  @ drop (snd (DecodeRuneInString s)) s))
   \<and> title_part000 U s = title U (TrimSpace s)
   \<and> title U ''add feature'' = ''Add feature''
   \<and> title U ''Already Title'' = ''Already Title''
   \<and> title_part000 U ''add feature'' = ''Add feature''
   \<and> title_part000 U ''Already Title'' = ''Already Title''
   \<and> title_part000 U ''  add feature  '' = ''Add feature''"
proof -
  have e: "title U [] = []" "title_part000 U [] = []"
    by (simp_all add: title_def title_part000_def)
  have v: "title U (runeToString r @ rest) =
          (if IsTitle U r then runeToString r @ rest
           else runeToString (ToTitle U r) @ rest)" if "ValidRune r"
  proof -
    have "runeToString r \<noteq> []" by (simp add: runeToString_def)
    then show ?thesis using decode_encode [OF that, of rest]
      by (simp add: title_def)
  qed
  have g: "title U s =
          (if IsTitle U (fst (DecodeRuneInString s)) then s
           else runeToString (ToTitle U (fst (DecodeRuneInString s)))
                  @ drop (snd (DecodeRuneInString s)) s)" if "s \<noteq> []"
    using that by (simp add: title_def split_beta)
  have p: "title_part000 U ''add feature'' = ''Add feature''"
    "title_part000 U ''Already Title'' = ''Already Title''"
    "title_part000 U ''  add feature  '' = ''Add feature''"
    by (simp_all only: title_part000_eq TrimSpace_add_feature TrimSpace_Already_Title
        TrimSpace_padded title_add_feature title_Already_Title)
  show ?thesis
    using e v g p title_part000_eq [of U s] title_add_feature [of U]
      title_Already_Title [of U]
    by blast
qed

lemma runeToString_E9: "runeToString 0xE9 = [CHR 0xC3, CHR 0xA9]"
  by code_simp

lemma runeToString_C9: "runeToString 0xC9 = [CHR 0xC3, CHR 0x89]"
  by code_simp

theorem title_rule_witness:
  "ValidRune 0xE9 \<and> [CHR 0xC3, CHR 0xA9] @ ''cole'' \<noteq> []
   \<and> title sampleTables ([CHR 0xC3, CHR 0xA9] @ ''cole'') = [CHR 0xC3, CHR 0x89] @ ''cole''
   \<and> title_part000 sampleTables ''  add feature  '' = ''Add feature''"
proof -
  have v: "ValidRune 0xE9" by (simp add: ValidRune_def)
  have t: "ToTitle sampleTables 0xE9 = 0xC9" "\<not> IsTitle sampleTables 0xE9"
    by (simp_all add: ToTitle_def IsTitle_def sampleTables_def MaxASCII_def MaxLatin1_def)
  have "title sampleTables (runeToString 0xE9 @ ''cole'') = runeToString 0xC9 @ ''cole''"
    using title_rule [of sampleTables "0xE9" "''cole''" "[CHR 0xC3, CHR 0xA9] @ ''cole''"] v t
    by simp
  moreover have "title_part000 sampleTables ''  add feature  '' = ''Add feature''"
    using title_rule [of sampleTables "0xE9" "''cole''" "[CHR 0xC3, CHR 0xA9] @ ''cole''"]
    by blast
  ultimately show ?thesis using v
    by (simp only: runeToString_E9 runeToString_C9) simp
qed


section \<open>Claims about the origin resolver\<close>

lemma TrimSpace_ssh_remote:
  "TrimSpace (''git@github.com:org/repo.git'' @ [CHR 0x0A]) = ''git@github.com:org/repo.git''"
  by code_simp


lemma url_Parse_ssh_remote:
  "url_Parse ''git@github.com:org/repo.git''
     = Inl (UrlParse ''git@github.com:org/repo.git''
              ''first path segment in URL cannot contain colon'')"
  by code_simp

lemma url_Parse_https_remote:
  "url_Parse ''https://github.com/org/repo.git''
     = Inr (emptyURL\<lparr>Scheme := ''https'', Host := ''github.com'', Path := ''/org/repo.git''\<rparr>)"
  by code_simp

lemma url_Parse_git_remote:
  "url_Parse ''git://github.com/org/repo''
     = Inr (emptyURL\<lparr>Scheme := ''git'', Host := ''github.com'', Path := ''/org/repo''\<rparr>)"
  by code_simp

lemma gitUrlRegex_ssh_remote:
  "FindStringSubmatch gitUrlRegex ''git@github.com:org/repo.git''
     = Some (''git@github.com:org/repo.git'', [(1, ''github.com''), (2, ''org''), (3, ''repo'')])"
  by code_simp

lemma gitUrlRegex_https_remote:
  "FindStringSubmatch gitUrlRegex ''https://github.com/org/repo.git'' = None"
  by code_simp

lemma TrimSuffix_repo_git: "TrimSuffix ''/org/repo.git'' ''.git'' = ''/org/repo''"
  by code_simp

lemma TrimSuffix_repo: "TrimSuffix ''/org/repo'' ''.git'' = ''/org/repo''"
  by code_simp

lemma MatchString_emptyRegexp: "regexp_MatchString emptyRegexp s = Inr True"
  by (simp add: regexp_MatchString_def FindStringSubmatch_def emptyRegexp_def searchFrom.simps)


lemma setupRepoAPIURL_part000_https:
  assumes "git W [''config'', ''--get'', ''remote.origin.url''] = Inr out"
    and "TrimSpace out = ''https://github.com/org/repo.git''"
  shows "fst (setupRepoAPIURL_part000 W st) = None
         \<and> apiUrl (snd (setupRepoAPIURL_part000 W st)) = ''https://api.github.com/repos/org/repo/''"
  using assms
  by (simp add: setupRepoAPIURL_part000_def execGitOneLine_part000_def execGit_part000_def
      gitUrlRegex_https_remote url_Parse_https_remote emit_def Let_def
      emptyURL_def TrimSuffix_repo_git MatchString_emptyRegexp)

lemma setupRepoAPIURL_part000_ssh:
  assumes "git W [''config'', ''--get'', ''remote.origin.url''] = Inr out"
    and "TrimSpace out = ''git@github.com:org/repo.git''"
  shows "fst (setupRepoAPIURL_part000 W st) = None
         \<and> apiUrl (snd (setupRepoAPIURL_part000 W st)) = ''https://api.github.com/repos/org/repo/''"
  using assms
  by (simp add: setupRepoAPIURL_part000_def execGitOneLine_part000_def execGit_part000_def
      gitUrlRegex_ssh_remote group_def url_Parse_git_remote emit_def Let_def
      emptyURL_def TrimSuffix_repo MatchString_emptyRegexp)

text \<open>
  C1. A remote of the HTTPS form \<^verbatim>\<open>https://github.com/org/repo.git\<close> resolves to
  the API base \<^verbatim>\<open>https://api.github.com/repos/org/repo/\<close> in both variants,
  and so does the SSH form \<^verbatim>\<open>git@github.com:org/repo.git\<close> in the second source
  file, which rewrites it to \<^verbatim>\<open>git://github.com/org/repo\<close> first. The resolver
  of \<^verbatim>\<open>main.go\<close> hands the SSH form to \<^verbatim>\<open>url.Parse\<close> as it is, which rejects it
  (the first path segment holds a colon): the resolver returns that error and
  \<^verbatim>\<open>apiUrl\<close> stays unset.
\<close>

theorem setupRepoAPIURL_ssh_remote:
  assumes "git W [''config'', ''--get'', ''remote.origin.url''] = Inr out"
    and "TrimSpace out = ''git@github.com:org/repo.git''"
  shows "setupRepoAPIURL W st =
           (Some (UrlParse ''git@github.com:org/repo.git''
                    ''first path segment in URL cannot contain colon''),
            emit (Exec [''config'', ''--get'', ''remote.origin.url'']) st)
         \<and> apiUrl (snd (setupRepoAPIURL W st)) = apiUrl st"
  using assms
  by (simp add: setupRepoAPIURL_def execGitOneLine_def execGit_def url_Parse_ssh_remote emit_def)

theorem setupRepoAPIURL_ssh_remote_witness:
  "setupRepoAPIURL
     (sampleWorld (''git@github.com:org/repo.git'' @ [CHR 0x0A]) [] [] []
        :: (nat list, pull) world) state0 =
     (Some (UrlParse ''git@github.com:org/repo.git''
              ''first path segment in URL cannot contain colon''),
      state0\<lparr>trace := [Exec [''config'', ''--get'', ''remote.origin.url'']]\<rparr>)"
proof -
  have g: "git (sampleWorld (''git@github.com:org/repo.git'' @ [CHR 0x0A]) [] [] []
                  :: (nat list, pull) world) [''config'', ''--get'', ''remote.origin.url'']
             = Inr (''git@github.com:org/repo.git'' @ [CHR 0x0A])"
    by (simp add: sampleWorld_def)
  show ?thesis
    using setupRepoAPIURL_ssh_remote [OF g TrimSpace_ssh_remote, of state0]
    by (simp add: emit_def state0_def)
qed

text \<open>
  C5. The resolver returns the error "only github.com repos are supported" when
  the host of the parsed remote is not \<^verbatim>\<open>github.com\<close>, and \<^verbatim>\<open>apiUrl\<close> stays
  unset. The check of the repository path matches the path against the empty
  pattern, which every string matches: once the host is \<^verbatim>\<open>github.com\<close> the
  resolver succeeds whatever the path is, and a remote without a repository,
  \<^verbatim>\<open>https://github.com/org\<close>, sets the API base to
  \<^verbatim>\<open>https://api.github.com/repos/org/\<close>.
\<close>

theorem setupRepoAPIURL_wrong_repo_name:
  "(git W [''config'', ''--get'', ''remote.origin.url''] = Inr out
        \<longrightarrow> url_Parse (TrimSpace out) = Inr parsed \<longrightarrow> Host parsed \<noteq> ''github.com''
        \<longrightarrow> setupRepoAPIURL W st =
              (Some (Msg ''only github.com repos are supported''),
               emit (Exec [''config'', ''--get'', ''remote.origin.url'']) st))
   \<and> (git W [''config'', ''--get'', ''remote.origin.url''] = Inr out
        \<longrightarrow> url_Parse (TrimSpace out) = Inr parsed \<longrightarrow> Host parsed = ''github.com''
        \<longrightarrow> setupRepoAPIURL W st =
              (None, (emit (Exec [''config'', ''--get'', ''remote.origin.url'']) st)
                       \<lparr>apiUrl := ''https://api.github.com/repos''
                                        @ TrimSuffix (Path parsed) ''.git'' @ ''/''\<rparr>))
   \<and> (git W' [''config'', ''--get'', ''remote.origin.url''] = Inr out
        \<longrightarrow> FindStringSubmatch gitUrlRegex (TrimSpace out) = None
        \<longrightarrow> url_Parse (TrimSpace out) = Inr parsed \<longrightarrow> Host parsed = ''github.com''
        \<longrightarrow> fst (setupRepoAPIURL_part000 W' st') = None
            \<and> apiUrl (snd (setupRepoAPIURL_part000 W' st')) =
                  ''https://api.github.com/repos'' @ TrimSuffix (Path parsed) ''.git'' @ ''/'')
   \<and> (git W [''config'', ''--get'', ''remote.origin.url''] = Inr out
        \<longrightarrow> TrimSpace out = ''https://github.com/org''
        \<longrightarrow> setupRepoAPIURL W st =
              (None, (emit (Exec [''config'', ''--get'', ''remote.origin.url'']) st)
                       \<lparr>apiUrl := ''https://api.github.com/repos/org/''\<rparr>))"
proof -
  have a: "setupRepoAPIURL W st =
              (None, (emit (Exec [''config'', ''--get'', ''remote.origin.url'']) st)
                       \<lparr>apiUrl := ''https://api.github.com/repos''
                                        @ TrimSuffix (Path parsed) ''.git'' @ ''/''\<rparr>)"
    if "git W [''config'', ''--get'', ''remote.origin.url''] = Inr out"
      "url_Parse (TrimSpace out) = Inr parsed" "Host parsed = ''github.com''"
    using that
    by (simp add: setupRepoAPIURL_def execGitOneLine_def execGit_def MatchString_emptyRegexp)
  have b: "fst (setupRepoAPIURL_part000 W' st') = None
            \<and> apiUrl (snd (setupRepoAPIURL_part000 W' st')) =
                  ''https://api.github.com/repos'' @ TrimSuffix (Path parsed) ''.git'' @ ''/''"
    if "git W' [''config'', ''--get'', ''remote.origin.url''] = Inr out"
      "FindStringSubmatch gitUrlRegex (TrimSpace out) = None"
      "url_Parse (TrimSpace out) = Inr parsed" "Host parsed = ''github.com''"
    using that
    by (simp add: setupRepoAPIURL_part000_def execGitOneLine_part000_def execGit_part000_def
        MatchString_emptyRegexp Let_def emit_def)
  have c: "setupRepoAPIURL W st =
              (Some (Msg ''only github.com repos are supported''),
               emit (Exec [''config'', ''--get'', ''remote.origin.url'']) st)"
    if "git W [''config'', ''--get'', ''remote.origin.url''] = Inr out"
      "url_Parse (TrimSpace out) = Inr parsed" "Host parsed \<noteq> ''github.com''"
    using that by (simp add: setupRepoAPIURL_def execGitOneLine_def execGit_def)
  have u: "url_Parse ''https://github.com/org''
     = Inr (emptyURL\<lparr>Scheme := ''https'', Host := ''github.com'', Path := ''/org''\<rparr>)"
    by code_simp
  have t: "TrimSuffix ''/org'' ''.git'' = ''/org''" by code_simp
  have d: "setupRepoAPIURL W st =
              (None, (emit (Exec [''config'', ''--get'', ''remote.origin.url'']) st)
                       \<lparr>apiUrl := ''https://api.github.com/repos/org/''\<rparr>)"
    if "git W [''config'', ''--get'', ''remote.origin.url''] = Inr out"
      "TrimSpace out = ''https://github.com/org''"
    using that
    by (simp add: setupRepoAPIURL_def execGitOneLine_def execGit_def u t emptyURL_def
        MatchString_emptyRegexp)
  show ?thesis using a b c d by blast
qed

lemma url_Parse_gitlab:
  "url_Parse ''https://gitlab.com/org/repo.git''
     = Inr (emptyURL\<lparr>Scheme := ''https'', Host := ''gitlab.com'', Path := ''/org/repo.git''\<rparr>)"
  by code_simp

lemma TrimSpace_org_remote: "TrimSpace ''https://github.com/org'' = ''https://github.com/org''"
  by code_simp

theorem setupRepoAPIURL_wrong_repo_name_witness:
  "setupRepoAPIURL (sampleWorld ''https://gitlab.com/org/repo.git'' [] [] []
        :: (nat list, pull) world) state0 =
     (Some (Msg ''only github.com repos are supported''),
      state0\<lparr>trace := [Exec [''config'', ''--get'', ''remote.origin.url'']]\<rparr>)
   \<and> setupRepoAPIURL (sampleWorld ''https://github.com/org'' [] [] []
        :: (nat list, pull) world) state0 =
     (None, state0\<lparr>trace := [Exec [''config'', ''--get'', ''remote.origin.url'']],
                   apiUrl := ''https://api.github.com/repos/org/''\<rparr>)"
proof -
  let ?W1 = "sampleWorld ''https://gitlab.com/org/repo.git'' [] [] [] :: (nat list, pull) world"
  let ?W2 = "sampleWorld ''https://github.com/org'' [] [] [] :: (nat list, pull) world"
  have t: "TrimSpace ''https://gitlab.com/org/repo.git'' = ''https://gitlab.com/org/repo.git''"
    by code_simp
  have g1: "git ?W1 [''config'', ''--get'', ''remote.origin.url'']
              = Inr ''https://gitlab.com/org/repo.git''"
    by (simp add: sampleWorld_def)
  have g2: "git ?W2 [''config'', ''--get'', ''remote.origin.url''] = Inr ''https://github.com/org''"
    by (simp add: sampleWorld_def)
  have p1: "url_Parse (TrimSpace ''https://gitlab.com/org/repo.git'') =
      Inr (emptyURL\<lparr>Scheme := ''https'', Host := ''gitlab.com'', Path := ''/org/repo.git''\<rparr>)"
    by (simp only: t url_Parse_gitlab)
  have h1: "Host (emptyURL\<lparr>Scheme := ''https'', Host := ''gitlab.com'',
                            Path := ''/org/repo.git''\<rparr>) \<noteq> ''github.com''"
    by simp
  have 1: "setupRepoAPIURL ?W1 state0 =
     (Some (Msg ''only github.com repos are supported''),
      emit (Exec [''config'', ''--get'', ''remote.origin.url'']) state0)"
    using setupRepoAPIURL_wrong_repo_name
      [where W = ?W1 and st = state0 and out = "''https://gitlab.com/org/repo.git''"
         and parsed = "emptyURL\<lparr>Scheme := ''https'', Host := ''gitlab.com'',
                                  Path := ''/org/repo.git''\<rparr>"]
      g1 p1 h1
    by blast
  have 2: "setupRepoAPIURL ?W2 state0 =
     (None, (emit (Exec [''config'', ''--get'', ''remote.origin.url'']) state0)
              \<lparr>apiUrl := ''https://api.github.com/repos/org/''\<rparr>)"
    using setupRepoAPIURL_wrong_repo_name
      [where W = ?W2 and st = state0 and out = "''https://github.com/org''"]
      g2 TrimSpace_org_remote
    by blast
  show ?thesis
    unfolding 1 2 by (simp add: emit_def state0_def)
qed


section \<open>Claims about the last tag\<close>

lemma execs_append: "execs (xs @ ys) = execs xs @ execs ys"
  by (induction xs rule: execs.induct) simp_all

lemma logged_append: "logged (xs @ ys) = logged xs @ logged ys"
  by (induction xs rule: logged.induct) simp_all

lemma getLastGitTag_loop_state:
  "getLastGitTag_loop W ls (mv, ma, st) = (mv', ma', st') \<Longrightarrow>
     st' = st\<lparr>trace := trace st @ map (wrongSemverTag W) (filter (\<lambda>l. \<not> validTag W l) ls)\<rparr>"
proof (induction ls arbitrary: mv ma st)
  case Nil
  then show ?case by simp
next
  case (Cons l ls)
  show ?case
  proof (cases "NewVersion W l")
    case (Inl err)
    with Cons.prems have
      "getLastGitTag_loop W ls (mv, ma, emit (wrongSemverTag W l) st) = (mv', ma', st')"
      by (simp add: wrongSemverTag_def)
    from Cons.IH [OF this] Inl show ?thesis
      by (simp add: validTag_def emit_def)
  next
    case (Inr v)
    then obtain mv2 ma2 where "getLastGitTag_loop W ls (mv2, ma2, st) = (mv', ma', st')"
      using Cons.prems by (auto split: if_splits)
    from Cons.IH [OF this] Inr show ?thesis
      by (simp add: validTag_def)
  qed
qed

definition tagInvariant ::
  "('v, 'p) world \<Rightarrow> string list \<Rightarrow> 'v option \<Rightarrow> string \<Rightarrow> bool" where
  "tagInvariant W seen mv ma =
    (if \<exists>l \<in> set seen. validTag W l
     then validTag W ma \<and> ma \<in> set seen \<and> mv = Some (versionOf W ma)
          \<and> (\<forall>l \<in> set seen. validTag W l \<longrightarrow>
                \<not> GreaterThan W (versionOf W l) (versionOf W ma))
     else mv = None \<and> ma = [])"

lemma getLastGitTag_loop_max:
  assumes "transp (GreaterThan W)" and "irreflp (GreaterThan W)"
    and "getLastGitTag_loop W ls (mv, ma, st) = (mv', ma', st')"
    and "tagInvariant W seen mv ma"
  shows "tagInvariant W (seen @ ls) mv' ma'"
  using assms(3,4)
proof (induction ls arbitrary: mv ma st seen)
  case Nil
  then show ?case by simp
next
  case (Cons l ls)
  have step: "\<exists>mv2 ma2 st2. getLastGitTag_loop W ls (mv2, ma2, st2) = (mv', ma', st')
               \<and> tagInvariant W (seen @ [l]) mv2 ma2"
  proof (cases "NewVersion W l")
    case (Inl err)
    then have nv: "\<not> validTag W l" by (simp add: validTag_def)
    from Inl Cons.prems(1) have
      "getLastGitTag_loop W ls (mv, ma, emit (wrongSemverTag W l) st) = (mv', ma', st')"
      by (simp add: wrongSemverTag_def)
    moreover have "tagInvariant W (seen @ [l]) mv ma"
      using Cons.prems(2) nv by (auto simp: tagInvariant_def)
    ultimately show ?thesis by blast
  next
    case (Inr v)
    then have v: "validTag W l" "versionOf W l = v"
      by (simp_all add: validTag_def versionOf_def)
    show ?thesis
    proof (cases "mv = None \<or> GreaterThan W v (the mv)")
      case True
      with Inr Cons.prems(1) have
        run: "getLastGitTag_loop W ls (Some v, l, st) = (mv', ma', st')" by auto
      have "tagInvariant W (seen @ [l]) (Some v) l"
      proof (cases "\<exists>k \<in> set seen. validTag W k")
        case False
        then show ?thesis
          using v assms(2) by (auto simp: tagInvariant_def irreflp_def)
      next
        case ex: True
        with Cons.prems(2) have inv: "mv = Some (versionOf W ma)"
          "\<forall>k \<in> set seen. validTag W k \<longrightarrow>
             \<not> GreaterThan W (versionOf W k) (versionOf W ma)"
          by (simp_all add: tagInvariant_def)
        with True have gt: "GreaterThan W v (versionOf W ma)" by simp
        have "\<not> GreaterThan W (versionOf W k) v" if "k \<in> set seen" "validTag W k" for k
        proof
          assume "GreaterThan W (versionOf W k) v"
          with gt assms(1) have "GreaterThan W (versionOf W k) (versionOf W ma)"
            by (meson transpD)
          with inv(2) that show False by blast
        qed
        then show ?thesis
          using v assms(2) by (auto simp: tagInvariant_def irreflp_def)
      qed
      with run show ?thesis by blast
    next
      case False
      with Inr Cons.prems(1) have
        run: "getLastGitTag_loop W ls (mv, ma, st) = (mv', ma', st')" by auto
      from False obtain w where w: "mv = Some w" "\<not> GreaterThan W v w" by auto
      have ex: "\<exists>k \<in> set seen. validTag W k"
        using Cons.prems(2) w by (auto simp: tagInvariant_def split: if_splits)
      with Cons.prems(2) w have "w = versionOf W ma" by (simp add: tagInvariant_def)
      with Cons.prems(2) ex w v have "tagInvariant W (seen @ [l]) mv ma"
        by (auto simp: tagInvariant_def)
      with run show ?thesis by blast
    qed
  qed
  then obtain mv2 ma2 st2 where
    "getLastGitTag_loop W ls (mv2, ma2, st2) = (mv', ma', st')"
    "tagInvariant W (seen @ [l]) mv2 ma2" by blast
  from Cons.IH [OF this] show ?case by simp
qed

lemma getLastGitTag_result:
  assumes "git W [''tag''] = Inr out" and "snd (ScanLines out) = False"
  shows "\<exists>mv. getLastGitTag W st =
           (Inr (fst (snd (getLastGitTag_loop W (fst (ScanLines out))
                             (None, [], emit (Exec [''tag'']) st)))),
            (emit (Exec [''tag'']) st)
              \<lparr>trace := trace (emit (Exec [''tag'']) st)
                  @ map (wrongSemverTag W)
                      (filter (\<lambda>l. \<not> validTag W l) (fst (ScanLines out)))\<rparr>)"
proof -
  obtain ls tl where sl: "ScanLines out = (ls, tl)" by (cases "ScanLines out")
  with assms(2) have tl: "tl = False" by simp
  obtain mv ma st' where
    run: "getLastGitTag_loop W ls (None, [], emit (Exec [''tag'']) st) = (mv, ma, st')"
    by (cases "getLastGitTag_loop W ls (None, [], emit (Exec [''tag'']) st)")
  from getLastGitTag_loop_state [OF run] have
    "st' = (emit (Exec [''tag'']) st)
              \<lparr>trace := trace (emit (Exec [''tag'']) st)
                  @ map (wrongSemverTag W) (filter (\<lambda>l. \<not> validTag W l) ls)\<rparr>" .
  with run sl tl assms(1) show ?thesis
    by (simp add: getLastGitTag_def execGit_def)
qed

text \<open>
  C8. When \<^verbatim>\<open>git tag\<close> succeeds and every line fits the scanner, \<^verbatim>\<open>getLastGitTag\<close>
  returns without an error whatever the lines are: a line that is not a
  semantic version adds one line to the log and nothing else. When a line is a
  version, the result is one of the lines, spelled as \<^verbatim>\<open>git\<close> printed it, and
  no line holds a greater version. (The order \<^verbatim>\<open>GreaterThan\<close> of the package
  \<^verbatim>\<open>semver\<close> is a parameter, taken to be transitive and irreflexive.)
\<close>

theorem getLastGitTag_skips_invalid:
  assumes "git W [''tag''] = Inr out" and "snd (ScanLines out) = False"
    and "transp (GreaterThan W)" and "irreflp (GreaterThan W)"
  shows "\<exists>tag. fst (getLastGitTag W st) = Inr tag
           \<and> (if \<exists>l \<in> set (fst (ScanLines out)). validTag W l
              then validTag W tag \<and> tag \<in> set (fst (ScanLines out))
                   \<and> (\<forall>l \<in> set (fst (ScanLines out)). validTag W l \<longrightarrow>
                         \<not> GreaterThan W (versionOf W l) (versionOf W tag))
              else tag = [])
           \<and> snd (getLastGitTag W st) =
               st\<lparr>trace := trace st @ [Exec [''tag'']]
                     @ map (wrongSemverTag W)
                         (filter (\<lambda>l. \<not> validTag W l) (fst (ScanLines out)))\<rparr>"
proof -
  let ?ls = "fst (ScanLines out)"
  let ?st1 = "emit (Exec [''tag'']) st"
  obtain mv ma st' where
    run: "getLastGitTag_loop W ?ls (None, [], ?st1) = (mv, ma, st')"
    by (cases "getLastGitTag_loop W ?ls (None, [], ?st1)")
  have inv0: "tagInvariant W [] None []" by (simp add: tagInvariant_def)
  from getLastGitTag_loop_max [OF assms(3,4) run inv0]
  have inv: "tagInvariant W ?ls mv ma" by simp
  from getLastGitTag_result [OF assms(1,2), of st] run
  have res: "getLastGitTag W st =
           (Inr ma, ?st1\<lparr>trace := trace ?st1
                  @ map (wrongSemverTag W) (filter (\<lambda>l. \<not> validTag W l) ?ls)\<rparr>)"
    by simp
  have tr: "?st1\<lparr>trace := trace ?st1
                  @ map (wrongSemverTag W) (filter (\<lambda>l. \<not> validTag W l) ?ls)\<rparr>
            = st\<lparr>trace := trace st @ [Exec [''tag'']]
                     @ map (wrongSemverTag W) (filter (\<lambda>l. \<not> validTag W l) ?ls)\<rparr>"
    by (simp add: emit_def)
  show ?thesis
  proof (intro exI [of _ ma] conjI)
    show "fst (getLastGitTag W st) = Inr ma" using res by simp
    show "if \<exists>l \<in> set ?ls. validTag W l
              then validTag W ma \<and> ma \<in> set ?ls
                   \<and> (\<forall>l \<in> set ?ls. validTag W l \<longrightarrow>
                         \<not> GreaterThan W (versionOf W l) (versionOf W ma))
              else ma = []"
      using inv by (simp add: tagInvariant_def)
    show "snd (getLastGitTag W st) =
               st\<lparr>trace := trace st @ [Exec [''tag'']]
                     @ map (wrongSemverTag W) (filter (\<lambda>l. \<not> validTag W l) ?ls)\<rparr>"
      using res tr by simp
  qed
qed

lemma tripleGreater_irrefl: "\<not> tripleGreater a a"
  by (induction a) simp_all

lemma tripleGreater_trans: "tripleGreater a b \<Longrightarrow> tripleGreater b c \<Longrightarrow> tripleGreater a c"
proof (induction a arbitrary: b c)
  case Nil
  then show ?case by simp
next
  case (Cons x xs)
  then obtain y ys where b: "b = y # ys" by (cases b) auto
  with Cons.prems obtain z zs where c: "c = z # zs" by (cases c) auto
  from Cons.prems b c Cons.IH [of ys zs] show ?case by auto
qed

lemma sampleWorld_order:
  "transp (GreaterThan (sampleWorld r t m p))" "irreflp (GreaterThan (sampleWorld r t m p))"
  using tripleGreater_trans tripleGreater_irrefl
  by (auto simp: sampleWorld_def transp_def irreflp_def)

lemma ScanLines_two_tags:
  "ScanLines (''not-a-version'' @ [CHR 0x0A] @ ''1.2.0'' @ [CHR 0x0A])
     = ([''not-a-version'', ''1.2.0''], False)"
  by (simp add: ScanLines_def MaxScanTokenSize_def dropCR_def)

lemma tripleVersion_1_2_0: "tripleVersion ''1.2.0'' = Inr [1, 2, 0]"
  by code_simp

lemma tripleVersion_not_a_version:
  "tripleVersion ''not-a-version'' = Inl (Msg ''Invalid Semantic Version'')"
  by code_simp

theorem getLastGitTag_skips_invalid_witness:
  "getLastGitTag
     (sampleWorld [] (''not-a-version'' @ [CHR 0x0A] @ ''1.2.0'' @ [CHR 0x0A]) [] []
        :: (nat list, pull) world) state0
   = (Inr ''1.2.0'',
      state0\<lparr>trace :=
        [Exec [''tag''],
         Printf ''Wrong semver tag %q: %s. Will ignore it.''
           [S ''not-a-version'', E (Msg ''Invalid Semantic Version'')]]\<rparr>)"
proof -
  let ?out = "''not-a-version'' @ [CHR 0x0A] @ ''1.2.0'' @ [CHR 0x0A]"
  let ?W = "sampleWorld [] ?out [] [] :: (nat list, pull) world"
  have g: "git ?W [''tag''] = Inr ?out" by (simp add: sampleWorld_def)
  have s: "snd (ScanLines ?out) = False" by (simp only: ScanLines_two_tags snd_conv)
  have ls: "fst (ScanLines ?out) = [''not-a-version'', ''1.2.0'']"
    by (simp only: ScanLines_two_tags fst_conv)
  have v: "validTag ?W ''1.2.0''" "\<not> validTag ?W ''not-a-version''"
    by (simp_all add: validTag_def sampleWorld_def tripleVersion_1_2_0
        tripleVersion_not_a_version)
  have w: "wrongSemverTag ?W ''not-a-version'' =
      Printf ''Wrong semver tag %q: %s. Will ignore it.''
           [S ''not-a-version'', E (Msg ''Invalid Semantic Version'')]"
    by (simp add: wrongSemverTag_def sampleWorld_def tripleVersion_not_a_version)
  from getLastGitTag_skips_invalid [OF g s sampleWorld_order, of state0]
  obtain tag where t: "fst (getLastGitTag ?W state0) = Inr tag"
    "if \<exists>l \<in> set (fst (ScanLines ?out)). validTag ?W l
     then validTag ?W tag \<and> tag \<in> set (fst (ScanLines ?out))
          \<and> (\<forall>l \<in> set (fst (ScanLines ?out)). validTag ?W l \<longrightarrow>
                \<not> GreaterThan ?W (versionOf ?W l) (versionOf ?W tag))
     else tag = []"
    "snd (getLastGitTag ?W state0) =
       state0\<lparr>trace := trace state0 @ [Exec [''tag'']]
             @ map (wrongSemverTag ?W)
                 (filter (\<lambda>l. \<not> validTag ?W l) (fst (ScanLines ?out)))\<rparr>"
    by blast
  from t(2) have "validTag ?W tag \<and> tag \<in> set [''not-a-version'', ''1.2.0'']"
    unfolding ls using v by auto
  with v have tag: "tag = ''1.2.0''" by auto
  from t(3) have "snd (getLastGitTag ?W state0) =
      state0\<lparr>trace := [Exec [''tag''], wrongSemverTag ?W ''not-a-version'']\<rparr>"
    unfolding ls using v by (simp add: state0_def)
  with t(1) tag w show ?thesis
    by (metis prod.collapse)
qed


section \<open>Claims about the merge log\<close>


lemma getGitMerges_loop_trace:
  "\<exists>evs. snd (getGitMerges_loop ls (ms, st)) = st\<lparr>trace := trace st @ evs\<rparr> \<and> execs evs = []"
proof (induction ls arbitrary: ms st)
  case Nil
  have "st = st\<lparr>trace := trace st @ []\<rparr>" by simp
  then show ?case by (metis execs.simps(1) getGitMerges_loop.simps(1) snd_conv)
next
  case (Cons l ls)
  have k: "\<exists>evs. snd (getGitMerges_loop ls (ms', emit e st)) = st\<lparr>trace := trace st @ evs\<rparr>
                 \<and> execs evs = []" if "execs [e] = []" for ms' e
  proof -
    from Cons [of ms' "emit e st"] obtain evs where
      "snd (getGitMerges_loop ls (ms', emit e st)) = (emit e st)\<lparr>trace := trace (emit e st) @ evs\<rparr>"
      "execs evs = []" by blast
    then have "snd (getGitMerges_loop ls (ms', emit e st)) = st\<lparr>trace := trace st @ (e # evs)\<rparr>
               \<and> execs (e # evs) = []"
      using that execs_append [of "[e]" evs] by (simp add: emit_def)
    then show ?thesis by blast
  qed
  show ?case
    using k Cons
    by (simp add: Let_def split: option.splits sum.splits prod.splits)
qed

lemma populateMergeWithInfo_loop_eq:
  "populateMergeWithInfo_loop W ms st =
     (map (enriched W (apiUrl st) (GitHubToken st)) ms,
      st\<lparr>trace := trace st
           @ concat (map (enrichEvents W (apiUrl st) (GitHubToken st)) ms)\<rparr>)"
proof (induction ms arbitrary: st)
  case Nil
  show ?case by simp
next
  case (Cons m ms)
  show ?case
    by (simp add: Cons Let_def githubAPI_def emit_def enriched_def closedPull_def
        enrichEvents_def pullsRequest_def split: sum.splits option.splits)
qed

lemma execs_enrichEvents: "execs (enrichEvents W url token m) = []"
  by (simp add: enrichEvents_def split: sum.splits option.splits)

lemma execs_concat_enrichEvents:
  "execs (concat (map (enrichEvents W url token) ms)) = []"
  by (induction ms) (simp_all add: execs_append execs_enrichEvents)

lemma populateMergeWithInfo_loop_trace:
  "\<exists>evs. snd (populateMergeWithInfo_loop W ms st) = st\<lparr>trace := trace st @ evs\<rparr>
         \<and> execs evs = []"
  using execs_concat_enrichEvents [of W "apiUrl st" "GitHubToken st" ms]
  by (metis populateMergeWithInfo_loop_eq snd_conv)

lemma getGitMerges_execs:
  "execs (trace (snd (getGitMerges W st lastTag))) = execs (trace st) @ [gitLogArgs lastTag]"
proof (cases "git W (gitLogArgs lastTag)")
  case (Inl f)
  then show ?thesis
    by (simp add: getGitMerges_def execGit_def emit_def execs_append)
next
  case (Inr out)
  let ?st1 = "emit (Exec (gitLogArgs lastTag)) st"
  obtain ls tl where sl: "ScanLines out = (ls, tl)" by (cases "ScanLines out")
  obtain ms st2 where l: "getGitMerges_loop ls ([], ?st1) = (ms, st2)"
    by (cases "getGitMerges_loop ls ([], ?st1)")
  from getGitMerges_loop_trace [of ls "[]" ?st1] l obtain evs where
    st2: "st2 = ?st1\<lparr>trace := trace ?st1 @ evs\<rparr>" "execs evs = []" by auto
  then have e2: "execs (trace st2) = execs (trace st) @ [gitLogArgs lastTag]"
    by (simp add: emit_def execs_append)
  show ?thesis
  proof (cases tl)
    case True
    with Inr sl l e2 show ?thesis by (simp add: getGitMerges_def execGit_def)
  next
    case False
    let ?sorted = "sort_Slice W (\<lambda>a b. MergeNum a > MergeNum b) ms"
    obtain ms' st3 where p: "populateMergeWithInfo_loop W ?sorted st2 = (ms', st3)"
      by (cases "populateMergeWithInfo_loop W ?sorted st2")
    from populateMergeWithInfo_loop_trace [of W ?sorted st2] p obtain evs' where
      "st3 = st2\<lparr>trace := trace st2 @ evs'\<rparr>" "execs evs' = []" by auto
    then have "execs (trace st3) = execs (trace st) @ [gitLogArgs lastTag]"
      using e2 by (simp add: execs_append)
    with Inr sl l False p show ?thesis
      by (simp add: getGitMerges_def execGit_def populateMergeWithInfo_def)
  qed
qed

lemma getGitMerges_returns:
  assumes "git W (gitLogArgs lastTag) = Inr out" and "snd (ScanLines out) = False"
  shows "\<exists>merges. fst (getGitMerges W st lastTag) = Inr merges"
proof -
  obtain ls tl where sl: "ScanLines out = (ls, tl)" by (cases "ScanLines out")
  with assms(2) have "tl = False" by simp
  with assms(1) sl show ?thesis
    by (simp add: getGitMerges_def execGit_def populateMergeWithInfo_def split: prod.splits)
qed






lemma ScanLines_empty: "ScanLines [] = ([], False)"
  by (simp add: ScanLines_def)


text \<open>
  C2. \<^verbatim>\<open>getGitMerges\<close> of \<^verbatim>\<open>main.go\<close> runs one \<^verbatim>\<open>git\<close> command, the merge log
  over the range from the tag it is given to \<^verbatim>\<open>origin/master\<close>. The flags of
  \<^verbatim>\<open>main.go\<close> do not include \<^verbatim>\<open>--main-branch\<close>: parsing it ends the program.
  The second source file registers \<^verbatim>\<open>--main-branch\<close> with the default \<^verbatim>\<open>main\<close>,
  and its \<^verbatim>\<open>getGitMerges\<close>, which runs no \<^verbatim>\<open>git\<close> command, returns the same
  whatever the branch is.
\<close>

theorem getGitMerges_range:
  "execs (trace (snd (getGitMerges W st lastTag))) =
     execs (trace st) @
       [[''log'', ''--merges'', ''--pretty=format:%H --- %an --- %aE --- %s'',
         lastTag @ ''..origin/master'']]
   \<and> init [''--main-branch'', branch] = Inl (FlagMsg ''flag provided but not defined: -main-branch'')
   \<and> init_part000 [] =
       Inr \<lparr>apiUrl = [], GitHubToken = [], Help = False, trace = [], MainBranch = ''main''\<rparr>
   \<and> init_part000 [''--main-branch'', branch] =
       Inr \<lparr>apiUrl = [], GitHubToken = [], Help = False, trace = [], MainBranch = branch\<rparr>
   \<and> fst (getGitMerges_part000 W' (st'\<lparr>MainBranch := branch\<rparr>) lastTag)
       = fst (getGitMerges_part000 W' st' lastTag)
   \<and> execs (trace (snd (getGitMerges_part000 W' st' lastTag))) = execs (trace st')"
proof -
  have 1: "execs (trace (snd (getGitMerges W st lastTag))) =
     execs (trace st) @
       [[''log'', ''--merges'', ''--pretty=format:%H --- %an --- %aE --- %s'',
         lastTag @ ''..origin/master'']]"
    using getGitMerges_execs [of W st lastTag] by (simp add: gitLogArgs_def)
  have 2: "init [''--main-branch'', branch] = Inl (FlagMsg ''flag provided but not defined: -main-branch'')"
    by (simp add: init_def flags_def HasPrefix_def Cut_def)
  have 3: "init_part000 [] =
       Inr \<lparr>apiUrl = [], GitHubToken = [], Help = False, trace = [], MainBranch = ''main''\<rparr>"
    by (simp add: init_part000_def flags_part000_def flagValue_def)
  have 4: "init_part000 [''--main-branch'', branch] =
       Inr \<lparr>apiUrl = [], GitHubToken = [], Help = False, trace = [], MainBranch = branch\<rparr>"
    by (simp add: init_part000_def flags_part000_def flagValue_def HasPrefix_def Cut_def)
  have 5: "fst (getGitMerges_part000 W' (st'\<lparr>MainBranch := branch\<rparr>) lastTag)
       = fst (getGitMerges_part000 W' st' lastTag)"
    by (simp add: getGitMerges_part000_def githubAPI_def Let_def split: sum.splits)
  have 6: "execs (trace (snd (getGitMerges_part000 W' st' lastTag))) = execs (trace st')"
    by (simp add: getGitMerges_part000_def githubAPI_def Let_def emit_def execs_append
        split: sum.splits)
  show ?thesis using 1 2 3 4 5 6 by blast
qed

lemma init_main_branch_develop:
  "init [''--main-branch'', ''develop''] = Inl (FlagMsg ''flag provided but not defined: -main-branch'')"
  by (simp add: init_def flags_def HasPrefix_def Cut_def)

theorem getGitMerges_range_counterexample:
  "init [''--main-branch'', ''develop''] = Inl (FlagMsg ''flag provided but not defined: -main-branch'')
   \<and> execs (trace (snd (getGitMerges
         (sampleWorld [] [] [] [] :: (nat list, pull) world) state0 ''1.2.0''))) =
       [[''log'', ''--merges'', ''--pretty=format:%H --- %an --- %aE --- %s'',
         ''1.2.0..origin/master'']]
   \<and> ''1.2.0..origin/master'' \<noteq> ''1.2.0..main''"
  using getGitMerges_execs [of "sampleWorld [] [] [] [] :: (nat list, pull) world" state0 "''1.2.0''"]
    init_main_branch_develop
  by (simp add: gitLogArgs_def state0_def)









section \<open>Claims about the enrichment\<close>

text \<open>
  C4. \<^verbatim>\<open>populateMergeWithInfo\<close> never returns an error. It keeps the number and
  the order of the entries. For each entry it asks the API for the pull
  requests of the commit: when the request fails, or no pull request of the
  response is closed, the entry is left as it was; otherwise the first closed
  pull request gives the entry its number, URL, title (title-cased), author and
  author URL. Besides the entries it only adds requests and log lines to the
  trace. So \<^verbatim>\<open>getGitMerges\<close> returns its list whatever the API answers, once
  \<^verbatim>\<open>git log\<close> has succeeded.
\<close>

theorem populateMergeWithInfo_soft:
  "fst (populateMergeWithInfo W merges st) = None
   \<and> length (fst (snd (populateMergeWithInfo W merges st))) = length merges
   \<and> (\<forall>i < length merges.
         fst (snd (populateMergeWithInfo W merges st)) ! i =
           (case github W (apiUrl st @ ''commits/'' @ CommitHash (merges ! i) @ ''/pulls'')
                   (if GitHubToken st \<noteq> [] then Some (''token '' @ GitHubToken st) else None) of
              Inl err \<Rightarrow> merges ! i
            | Inr pullsInfo \<Rightarrow>
                (case find (\<lambda>pull. pull_State pull = ''closed'') pullsInfo of
                   None \<Rightarrow> merges ! i
                 | Some pull \<Rightarrow>
                     (merges ! i)\<lparr>MergeNum := pull_Number pull,
                                  MergeUrl := pull_Url pull,
                                  Title := title (tables W) (pull_Title pull),
                                  UserName := pull_User_Login pull,
                                  UserProfileUrl := pull_User_Url pull\<rparr>)))
   \<and> snd (snd (populateMergeWithInfo W merges st)) =
         st\<lparr>trace := trace st
              @ concat (map (enrichEvents W (apiUrl st) (GitHubToken st)) merges)\<rparr>
   \<and> execs (concat (map (enrichEvents W (apiUrl st) (GitHubToken st)) merges)) = []
   \<and> (git W (gitLogArgs lastTag) = Inr out \<longrightarrow> snd (ScanLines out) = False
        \<longrightarrow> (\<exists>ms. fst (getGitMerges W st lastTag) = Inr ms))"
proof -
  let ?f = "enriched W (apiUrl st) (GitHubToken st)"
  have eq: "populateMergeWithInfo W merges st =
      (None, map ?f merges,
       st\<lparr>trace := trace st
           @ concat (map (enrichEvents W (apiUrl st) (GitHubToken st)) merges)\<rparr>)"
    by (simp add: populateMergeWithInfo_def populateMergeWithInfo_loop_eq)
  have 1: "fst (populateMergeWithInfo W merges st) = None" using eq by simp
  have 2: "length (fst (snd (populateMergeWithInfo W merges st))) = length merges"
    using eq by simp
  have 3: "fst (snd (populateMergeWithInfo W merges st)) ! i =
           (case github W (apiUrl st @ ''commits/'' @ CommitHash (merges ! i) @ ''/pulls'')
                   (if GitHubToken st \<noteq> [] then Some (''token '' @ GitHubToken st) else None) of
              Inl err \<Rightarrow> merges ! i
            | Inr pullsInfo \<Rightarrow>
                (case find (\<lambda>pull. pull_State pull = ''closed'') pullsInfo of
                   None \<Rightarrow> merges ! i
                 | Some pull \<Rightarrow>
                     (merges ! i)\<lparr>MergeNum := pull_Number pull,
                                  MergeUrl := pull_Url pull,
                                  Title := title (tables W) (pull_Title pull),
                                  UserName := pull_User_Login pull,
                                  UserProfileUrl := pull_User_Url pull\<rparr>))"
    if "i < length merges" for i
  proof -
    have "fst (snd (populateMergeWithInfo W merges st)) ! i = ?f (merges ! i)"
      using eq that by simp
    then show ?thesis
      by (simp add: enriched_def closedPull_def pullsRequest_def
          split: sum.splits option.splits)
  qed
  have 4: "snd (snd (populateMergeWithInfo W merges st)) =
         st\<lparr>trace := trace st
              @ concat (map (enrichEvents W (apiUrl st) (GitHubToken st)) merges)\<rparr>"
    using eq by simp
  have 5: "execs (concat (map (enrichEvents W (apiUrl st) (GitHubToken st)) merges)) = []"
    by (rule execs_concat_enrichEvents)
  have 6: "\<exists>ms. fst (getGitMerges W st lastTag) = Inr ms"
    if "git W (gitLogArgs lastTag) = Inr out" "snd (ScanLines out) = False"
    using getGitMerges_returns [OF that] .
  show ?thesis using 1 2 3 4 5 6 by blast
qed

lemma title_fix_bug: "title sampleTables ''fix bug'' = ''Fix bug''"
  by code_simp

theorem populateMergeWithInfo_soft_witness:
  "fst (populateMergeWithInfo
          (sampleWorld [] [] [] [(''commits/c10/pulls'', [pull2])] :: (nat list, pull) world)
          [mergeC10, mergeC3] state0) = None
   \<and> fst (snd (populateMergeWithInfo
          (sampleWorld [] [] [] [(''commits/c10/pulls'', [pull2])] :: (nat list, pull) world)
          [mergeC10, mergeC3] state0)) ! 0
       = mergeC10\<lparr>MergeNum := 2, MergeUrl := ''https://github.com/org/repo/pull/2'',
                  Title := ''Fix bug'', UserName := ''bob'',
                  UserProfileUrl := ''https://github.com/bob''\<rparr>
   \<and> fst (snd (populateMergeWithInfo
          (sampleWorld [] [] [] [(''commits/c10/pulls'', [pull2])] :: (nat list, pull) world)
          [mergeC10, mergeC3] state0)) ! 1 = mergeC3
   \<and> (\<exists>ms. fst (getGitMerges
          (sampleWorld [] [] [] [(''commits/c10/pulls'', [pull2])] :: (nat list, pull) world)
          state0 []) = Inr ms)"
proof -
  let ?W = "sampleWorld [] [] [] [(''commits/c10/pulls'', [pull2])] :: (nat list, pull) world"
  note th = populateMergeWithInfo_soft [of ?W "[mergeC10, mergeC3]" state0 "[]" "[]"]
  have g: "git ?W (gitLogArgs []) = Inr []" by (simp add: sampleWorld_def gitLogArgs_def)
  have s: "snd (ScanLines []) = False" by (simp add: ScanLines_empty)
  have a0: "github ?W (apiUrl state0 @ ''commits/'' @ CommitHash ([mergeC10, mergeC3] ! 0)
                      @ ''/pulls'')
              (if GitHubToken state0 \<noteq> [] then Some (''token '' @ GitHubToken state0) else None)
            = Inr [pull2]"
    by (simp add: sampleWorld_def state0_def mergeC10_def)
  have a1: "github ?W (apiUrl state0 @ ''commits/'' @ CommitHash ([mergeC10, mergeC3] ! 1)
                      @ ''/pulls'')
              (if GitHubToken state0 \<noteq> [] then Some (''token '' @ GitHubToken state0) else None)
            = Inl (Transport ''can't get response'')"
    by (simp add: sampleWorld_def state0_def mergeC3_def)
  have f: "find (\<lambda>pull. pull_State pull = ''closed'') [pull2] = Some pull2"
    by (simp add: pull2_def)
  have t: "tables ?W = sampleTables" by (simp add: sampleWorld_def)
  note all = th [THEN conjunct2, THEN conjunct2, THEN conjunct1]
  have l2: "0 < length [mergeC10, mergeC3]" "1 < length [mergeC10, mergeC3]" by simp_all
  have n0: "fst (snd (populateMergeWithInfo ?W [mergeC10, mergeC3] state0)) ! 0 =
      mergeC10\<lparr>MergeNum := pull_Number pull2, MergeUrl := pull_Url pull2,
               Title := title sampleTables (pull_Title pull2),
               UserName := pull_User_Login pull2, UserProfileUrl := pull_User_Url pull2\<rparr>"
    using all [rule_format, OF l2(1)] unfolding a0 sum.case f option.case by (simp add: t)
  have n1: "fst (snd (populateMergeWithInfo ?W [mergeC10, mergeC3] state0)) ! 1
      = mergeC3"
    using all [rule_format, OF l2(2)] unfolding a1 by simp
  from th g s have r: "\<exists>ms. fst (getGitMerges ?W state0 []) = Inr ms" by blast
  from th have e: "fst (populateMergeWithInfo ?W [mergeC10, mergeC3] state0) = None" by blast
  have p: "pull_Number pull2 = 2" "pull_Url pull2 = ''https://github.com/org/repo/pull/2''"
    "pull_Title pull2 = ''fix bug''" "pull_User_Login pull2 = ''bob''"
    "pull_User_Url pull2 = ''https://github.com/bob''"
    by (simp_all add: pull2_def)
  show ?thesis
    using e n0 n1 r unfolding p title_fix_bug by blast
qed


section \<open>Claims about the closed-PR-list variant\<close>

text \<open>
  C9. When the API answers the request for the closed pull requests,
  \<^verbatim>\<open>getGitMerges\<close> of the second source file returns one entry for each pull
  request of the response whose merge timestamp is not empty, in the order of
  the response, and none for a pull request whose merge timestamp is empty; the
  changelog has one line for each entry.
\<close>

theorem getGitMerges_part000_merged_only:
  assumes "github W (apiUrl st @ ''pulls?state=closed&sort=updated&direction=desc&per_page=100'')
             (if GitHubToken st \<noteq> [] then Some (''token '' @ GitHubToken st) else None)
           = Inr pullsInfo"
  shows "fst (getGitMerges_part000 W st lastTag) =
           Inr (map (\<lambda>pi. \<lparr>CommitHash_p = pull_MergeCommitSHA pi,
                             UserName_p = pull_User_Login pi,
                             UserProfileUrl_p = pull_User_Url pi,
                             MergeNum_p = pull_Number pi,
                             MergeUrl_p = pull_Url pi,
                             Title_p = title_part000 (tables W) (pull_Title pi)\<rparr>)
                  (filter (\<lambda>pi. pull_MergedAt pi \<noteq> []) pullsInfo))
    \<and> ((\<forall>pi \<in> set pullsInfo. pull_MergedAt pi = [])
         \<longrightarrow> fst (getGitMerges_part000 W st lastTag) = Inr [])
    \<and> (\<forall>merges. fst (getGitMerges_part000 W st lastTag) = Inr merges \<longrightarrow>
          length merges = length (filter (\<lambda>pi. pull_MergedAt pi \<noteq> []) pullsInfo)
          \<and> generateChangelogSection_part000 W merges =
              Inr ([CHR 0x0A] @ ''### Tag NEW_TAG_HERE ('' @ today W @ '')'' @ [CHR 0x0A]
                   @ concat (map renderMerge_part000 merges)))"
proof -
  let ?conv = "\<lambda>pi. \<lparr>CommitHash_p = pull_MergeCommitSHA pi,
                             UserName_p = pull_User_Login pi,
                             UserProfileUrl_p = pull_User_Url pi,
                             MergeNum_p = pull_Number pi,
                             MergeUrl_p = pull_Url pi,
                             Title_p = title_part000 (tables W) (pull_Title pi)\<rparr>"
  have 1: "fst (getGitMerges_part000 W st lastTag) =
           Inr (map ?conv (filter (\<lambda>pi. pull_MergedAt pi \<noteq> []) pullsInfo))"
    using assms by (simp add: getGitMerges_part000_def githubAPI_def Let_def)
  have 2: "fst (getGitMerges_part000 W st lastTag) = Inr []"
    if "\<forall>pi \<in> set pullsInfo. pull_MergedAt pi = []"
  proof -
    from that have "filter (\<lambda>pi. pull_MergedAt pi \<noteq> []) pullsInfo = []"
      by (induction pullsInfo) simp_all
    with 1 show ?thesis by simp
  qed
  have 3: "length merges = length (filter (\<lambda>pi. pull_MergedAt pi \<noteq> []) pullsInfo)
          \<and> generateChangelogSection_part000 W merges =
              Inr ([CHR 0x0A] @ ''### Tag NEW_TAG_HERE ('' @ today W @ '')'' @ [CHR 0x0A]
                   @ concat (map renderMerge_part000 merges))"
    if "fst (getGitMerges_part000 W st lastTag) = Inr merges" for merges
  proof -
    from that 1 have "merges = map ?conv (filter (\<lambda>pi. pull_MergedAt pi \<noteq> []) pullsInfo)"
      by simp
    then have "length merges = length (filter (\<lambda>pi. pull_MergedAt pi \<noteq> []) pullsInfo)"
      by simp
    then show ?thesis
      by (simp add: generateChangelogSection_part000_def NewTagPlaceholder_def)
  qed
  show ?thesis using 1 2 3 by blast
qed

lemma title_part000_fix_bug: "title_part000 sampleTables ''fix bug'' = ''Fix bug''"
  by code_simp

lemma char_of_52: "char_of (52::nat) = CHR ''4''"
  by code_simp

lemma char_of_50: "char_of (50::nat) = CHR ''2''"
  by code_simp

lemma Itoa_42: "Itoa 42 = ''42''"
  by (simp add: Itoa_def digits.simps char_of_52 char_of_50)

theorem getGitMerges_part000_merged_only_witness:
  "fst (getGitMerges_part000
          (sampleWorld [] [] []
             [(''pulls?state=closed&sort=updated&direction=desc&per_page=100'',
               [pull42, pull43])] :: (nat list, pull_part000) world)
          state0_part000 ''unknown'')
     = Inr [\<lparr>CommitHash_p = ''abc'', UserName_p = ''alice'',
              UserProfileUrl_p = ''https://github.com/alice'', MergeNum_p = 42,
              MergeUrl_p = ''https://github.com/org/repo/pull/42'', Title_p = ''Fix bug''\<rparr>]
   \<and> renderMerge_part000
        \<lparr>CommitHash_p = ''abc'', UserName_p = ''alice'',
          UserProfileUrl_p = ''https://github.com/alice'', MergeNum_p = 42,
          MergeUrl_p = ''https://github.com/org/repo/pull/42'', Title_p = ''Fix bug''\<rparr>
     = ''* Fix bug. [#42](https://github.com/org/repo/pull/42) ([alice](https://github.com/alice))''
       @ [CHR 0x0A]"
proof -
  let ?W = "sampleWorld [] [] []
             [(''pulls?state=closed&sort=updated&direction=desc&per_page=100'',
               [pull42, pull43])] :: (nat list, pull_part000) world"
  have g: "github ?W
             (apiUrl state0_part000
                @ ''pulls?state=closed&sort=updated&direction=desc&per_page=100'')
             (if GitHubToken state0_part000 \<noteq> []
              then Some (''token '' @ GitHubToken state0_part000) else None)
           = Inr [pull42, pull43]"
    by (simp add: sampleWorld_def state0_part000_def)
  have f: "filter (\<lambda>pi. pull_MergedAt pi \<noteq> []) [pull42, pull43] = [pull42]"
    by (simp add: pull42_def pull43_def)
  have t: "tables ?W = sampleTables" by (simp add: sampleWorld_def)
  have 1: "fst (getGitMerges_part000 ?W state0_part000 ''unknown'')
     = Inr [\<lparr>CommitHash_p = ''abc'', UserName_p = ''alice'',
              UserProfileUrl_p = ''https://github.com/alice'', MergeNum_p = 42,
              MergeUrl_p = ''https://github.com/org/repo/pull/42'', Title_p = ''Fix bug''\<rparr>]"
    using getGitMerges_part000_merged_only [OF g, of "''unknown''"]
    unfolding f t by (simp add: pull42_def title_part000_fix_bug)
  have 2: "renderMerge_part000
        \<lparr>CommitHash_p = ''abc'', UserName_p = ''alice'',
          UserProfileUrl_p = ''https://github.com/alice'', MergeNum_p = 42,
          MergeUrl_p = ''https://github.com/org/repo/pull/42'', Title_p = ''Fix bug''\<rparr>
     = ''* Fix bug. [#42](https://github.com/org/repo/pull/42) ([alice](https://github.com/alice))''
       @ [CHR 0x0A]"
    by (simp add: renderMerge_part000_def Itoa_42)
  show ?thesis using 1 2 by blast
qed


end
